theory Spec2Isabelle
  imports Main "HOL-Library.AList"
begin

section \<open>Values, documents and errors\<close>

text \<open>
  The handlers of \<^verbatim>\<open>main.py\<close> work on what \<^verbatim>\<open>json.load\<close> returns: Python
  values built from \<^verbatim>\<open>None\<close>, booleans, integers, strings, lists and dicts with
  string keys. A dict is an association list in insertion order; \<^verbatim>\<open>d[k]\<close> reads
  it with \<open>map_of\<close>, \<^verbatim>\<open>d[k] = v\<close> is \<open>AList.update\<close> (the key keeps its place, a
  new key goes last). Numbers are Python's unbounded integers; JSON numbers with a
  fraction or an exponent are outside this model.
\<close>

datatype json =
    JNull
  | JBool bool
  | JInt int
  | JStr string
  | JList "json list"
  | JObj "(string \<times> json) list"

text \<open>
  The text of a file, or of a frame, as \<^verbatim>\<open>json.load\<close> / \<^verbatim>\<open>json.loads\<close> sees it:
  either it does not parse, or it parses to a value.
\<close>

datatype document = Malformed | Parsed json

type_synonym files = "string \<rightharpoonup> document"

text \<open>
  What a function raises. \<open>HTTPException\<close> carries the status code and the detail.
  \<open>KeyError_or_TypeError\<close> stands for the two exceptions Python raises by itself in
  the handlers: a subscript with a key the dict does not have (KeyError), and a
  subscript, an ordering or an addition on a value of the wrong type (TypeError).
\<close>

datatype error =
    HTTPException nat string
  | JSONDecodeError
  | KeyError_or_TypeError

definition PROJECTS_DB_FILE :: string where
  "PROJECTS_DB_FILE = ''projects.json''"

definition USERS_DB_FILE :: string where
  "USERS_DB_FILE = ''users.json''"

definition TASKS_DB_FILE :: string where
  "TASKS_DB_FILE = ''tasks.json''"

definition FORMS_DB_FILE :: string where
  "FORMS_DB_FILE = ''forms.json''"

section \<open>The record store\<close>

text \<open>
  \<^verbatim>\<open>load_data\<close>: a missing file (FileNotFoundError) gives the empty list, a parsed
  value that is a list is returned, any other parsed value gives the empty list.
  \<^verbatim>\<open>json.load\<close> raises JSONDecodeError on text that does not parse, and the only
  \<^verbatim>\<open>except\<close> clause is for FileNotFoundError.
\<close>

definition load_data :: "files \<Rightarrow> string \<Rightarrow> error + json list" where
  "load_data fs file_path =
     (case fs file_path of
        None \<Rightarrow> Inr []
      | Some Malformed \<Rightarrow> Inl JSONDecodeError
      | Some (Parsed data) \<Rightarrow> (case data of JList xs \<Rightarrow> Inr xs | _ \<Rightarrow> Inr []))"

text \<open>\<^verbatim>\<open>save_data\<close> overwrites the file with the dump of the list.\<close>

definition save_data :: "files \<Rightarrow> string \<Rightarrow> json list \<Rightarrow> files" where
  "save_data fs file_path data = fs(file_path \<mapsto> Parsed (JList data))"

section \<open>Python's operations on loaded values\<close>

text \<open>\<^verbatim>\<open>x[key]\<close> with a string key: only a dict that has the key answers.\<close>

fun getitem :: "json \<Rightarrow> string \<Rightarrow> error + json" where
  "getitem (JObj d) k =
     (case map_of d k of None \<Rightarrow> Inl KeyError_or_TypeError | Some v \<Rightarrow> Inr v)"
| "getitem _ k = Inl KeyError_or_TypeError"

text \<open>
  The integer a value counts as in \<^verbatim>\<open>==\<close>, \<^verbatim>\<open>max\<close> and \<^verbatim>\<open>+ 1\<close>: \<^verbatim>\<open>bool\<close> is a
  subclass of \<^verbatim>\<open>int\<close> (\<^verbatim>\<open>True == 1\<close>), no other value of the model is a number.
\<close>

fun as_int :: "json \<Rightarrow> int option" where
  "as_int (JInt i) = Some i"
| "as_int (JBool b) = Some (if b then 1 else 0)"
| "as_int _ = None"

text \<open>\<^verbatim>\<open>v == n\<close> for an integer \<open>n\<close>: never raises, false for a value that is no number.\<close>

definition eq_int :: "json \<Rightarrow> int \<Rightarrow> bool" where
  "eq_int v n = (as_int v = Some n)"

text \<open>
  \<^verbatim>\<open>1 if not xs else max(x["id"] for x in xs) + 1\<close>, the expression every create
  handler uses. \<open>max_id\<close> is the loop of \<^verbatim>\<open>max\<close> with the largest id so far. A record
  that is no dict or has no id, or an id that is no number, ends in an exception: ids
  that Python can order among themselves (strings, lists) still fail at \<^verbatim>\<open>+ 1\<close>.
\<close>

fun max_id :: "int \<Rightarrow> json list \<Rightarrow> error + int" where
  "max_id m [] = Inr m"
| "max_id m (x # xs) =
     (case getitem x ''id'' of
        Inl e \<Rightarrow> Inl e
      | Inr v \<Rightarrow>
          (case as_int v of
             None \<Rightarrow> Inl KeyError_or_TypeError
           | Some i \<Rightarrow> max_id (max m i) xs))"

definition next_id :: "json list \<Rightarrow> error + int" where
  "next_id xs =
     (case xs of
        [] \<Rightarrow> Inr 1
      | x # rest \<Rightarrow>
          (case getitem x ''id'' of
             Inl e \<Rightarrow> Inl e
           | Inr v \<Rightarrow>
               (case as_int v of
                  None \<Rightarrow> Inl KeyError_or_TypeError
                | Some i \<Rightarrow>
                    (case max_id i rest of
                       Inl e \<Rightarrow> Inl e
                     | Inr m \<Rightarrow> Inr (m + 1)))))"

text \<open>\<^verbatim>\<open>d.update(other)\<close>: each item of \<open>other\<close> is assigned in turn.\<close>

definition dict_update :: "(string \<times> json) list \<Rightarrow> (string \<times> json) list \<Rightarrow> (string \<times> json) list" where
  "dict_update d other = fold (\<lambda>(k, v). AList.update k v) other d"

section \<open>The request models\<close>

text \<open>
  The pydantic models. \<^verbatim>\<open>id: int = None\<close> is an optional integer, \<^verbatim>\<open>skills\<close> an
  optional list of integers. \<^verbatim>\<open>.dict()\<close> lists the fields in declaration order.
\<close>

record Project =
  p_id :: "int option"
  p_name :: string
  p_description :: string
  p_podrazdelenie :: string
  p_date :: string
  p_skills :: "int list option"

record User =
  u_id :: "int option"
  u_first_name :: string
  u_last_name :: string
  u_password :: string

record Task =
  t_id :: "int option"
  t_project_id :: int
  t_name :: string
  t_description :: string
  t_date :: string
  t_status :: string

record ParticipationForm =
  f_id :: "int option"
  f_user_id :: int
  f_project_id :: int
  f_motivation :: string
  f_experience :: string
  f_availability :: string

definition opt_int :: "int option \<Rightarrow> json" where
  "opt_int v = (case v of None \<Rightarrow> JNull | Some i \<Rightarrow> JInt i)"

definition opt_ints :: "int list option \<Rightarrow> json" where
  "opt_ints v = (case v of None \<Rightarrow> JNull | Some ks \<Rightarrow> JList (map JInt ks))"

definition Project_dict :: "Project \<Rightarrow> (string \<times> json) list" where
  "Project_dict p =
     [(''id'', opt_int (p_id p)), (''name'', JStr (p_name p)),
      (''description'', JStr (p_description p)),
      (''podrazdelenie'', JStr (p_podrazdelenie p)), (''date'', JStr (p_date p)),
      (''skills'', opt_ints (p_skills p))]"

definition User_dict :: "User \<Rightarrow> (string \<times> json) list" where
  "User_dict u =
     [(''id'', opt_int (u_id u)), (''first_name'', JStr (u_first_name u)),
      (''last_name'', JStr (u_last_name u)), (''password'', JStr (u_password u))]"

definition Task_dict :: "Task \<Rightarrow> (string \<times> json) list" where
  "Task_dict t =
     [(''id'', opt_int (t_id t)), (''project_id'', JInt (t_project_id t)),
      (''name'', JStr (t_name t)), (''description'', JStr (t_description t)),
      (''date'', JStr (t_date t)), (''status'', JStr (t_status t))]"

definition ParticipationForm_dict :: "ParticipationForm \<Rightarrow> (string \<times> json) list" where
  "ParticipationForm_dict f =
     [(''id'', opt_int (f_id f)), (''user_id'', JInt (f_user_id f)),
      (''project_id'', JInt (f_project_id f)), (''motivation'', JStr (f_motivation f)),
      (''experience'', JStr (f_experience f)), (''availability'', JStr (f_availability f))]"

text \<open>\<^verbatim>\<open>.dict(exclude={...})\<close>: the same items without the excluded keys.\<close>

definition exclude :: "string list \<Rightarrow> (string \<times> json) list \<Rightarrow> (string \<times> json) list" where
  "exclude ks d = filter (\<lambda>(k, v). k \<notin> set ks) d"

section \<open>Loops and comprehensions over the loaded records\<close>

text \<open>
  The handlers test each record with a condition that subscripts it, so the test can
  raise. \<open>id_matches x n\<close> is \<^verbatim>\<open>x["id"] == n\<close>; \<open>task_matches t task_id project_id\<close>
  is \<^verbatim>\<open>t["id"] == task_id and t["project_id"] == project_id\<close>, where \<^verbatim>\<open>and\<close> reads
  the second key only when the first test holds; \<open>form_matches\<close> is the test of
  \<^verbatim>\<open>create_form\<close> on \<^verbatim>\<open>user_id\<close> and \<^verbatim>\<open>project_id\<close>.
\<close>

definition id_matches :: "json \<Rightarrow> int \<Rightarrow> error + bool" where
  "id_matches x n =
     (case getitem x ''id'' of Inl e \<Rightarrow> Inl e | Inr v \<Rightarrow> Inr (eq_int v n))"

definition task_matches :: "json \<Rightarrow> int \<Rightarrow> int \<Rightarrow> error + bool" where
  "task_matches t task_id project_id =
     (case getitem t ''id'' of
        Inl e \<Rightarrow> Inl e
      | Inr v \<Rightarrow>
          if eq_int v task_id
          then (case getitem t ''project_id'' of
                  Inl e \<Rightarrow> Inl e
                | Inr w \<Rightarrow> Inr (eq_int w project_id))
          else Inr False)"

definition form_matches :: "json \<Rightarrow> int \<Rightarrow> int \<Rightarrow> error + bool" where
  "form_matches existing_form user_id project_id =
     (case getitem existing_form ''user_id'' of
        Inl e \<Rightarrow> Inl e
      | Inr v \<Rightarrow>
          if eq_int v user_id
          then (case getitem existing_form ''project_id'' of
                  Inl e \<Rightarrow> Inl e
                | Inr w \<Rightarrow> Inr (eq_int w project_id))
          else Inr False)"

text \<open>
  \<^verbatim>\<open>for x in xs: if cond(x): raise ...\<close>: whether some record meets the condition,
  the records taken in order, the first exception or the first hit ending the loop.
\<close>

fun any_match :: "(json \<Rightarrow> error + bool) \<Rightarrow> json list \<Rightarrow> error + bool" where
  "any_match cond [] = Inr False"
| "any_match cond (x # xs) =
     (case cond x of
        Inl e \<Rightarrow> Inl e
      | Inr True \<Rightarrow> Inr True
      | Inr False \<Rightarrow> any_match cond xs)"

text \<open>
  \<^verbatim>\<open>[x for x in xs if not cond(x)]\<close>, the comprehension of the delete handlers.
\<close>

fun drop_matching :: "(json \<Rightarrow> error + bool) \<Rightarrow> json list \<Rightarrow> error + json list" where
  "drop_matching cond [] = Inr []"
| "drop_matching cond (x # xs) =
     (case cond x of
        Inl e \<Rightarrow> Inl e
      | Inr b \<Rightarrow>
          (case drop_matching cond xs of
             Inl e \<Rightarrow> Inl e
           | Inr ys \<Rightarrow> Inr (if b then ys else x # ys)))"

text \<open>
  \<^verbatim>\<open>for x in xs: if cond(x): x.update(d); save_data(...); return x\<close>, the loop of the
  update handlers: the first record that meets the condition is updated in place and
  returned with the list it lives in; \<open>None\<close> when the loop ends without a hit (the
  handler then raises its 404). The condition subscripts \<open>x\<close>, so a record that passes
  it is a dict; \<^verbatim>\<open>update\<close> on any other value would raise.
\<close>

fun update_first ::
  "(json \<Rightarrow> error + bool) \<Rightarrow> (string \<times> json) list \<Rightarrow> json list \<Rightarrow> error + (json \<times> json list) option"
where
  "update_first cond d [] = Inr None"
| "update_first cond d (x # xs) =
     (case cond x of
        Inl e \<Rightarrow> Inl e
      | Inr True \<Rightarrow>
          (case x of
             JObj old \<Rightarrow> Inr (Some (JObj (dict_update old d), JObj (dict_update old d) # xs))
           | _ \<Rightarrow> Inl KeyError_or_TypeError)
      | Inr False \<Rightarrow>
          (case update_first cond d xs of
             Inl e \<Rightarrow> Inl e
           | Inr None \<Rightarrow> Inr None
           | Inr (Some (y, ys)) \<Rightarrow> Inr (Some (y, x # ys))))"

text \<open>
  The lines every create handler ends with, on the list it has loaded:
  \<^verbatim>\<open>new_id = ...; new = model.dict(); new["id"] = new_id; xs.append(new);
  save_data(FILE, xs); return new\<close>.
\<close>

definition append_with_new_id ::
  "files \<Rightarrow> string \<Rightarrow> json list \<Rightarrow> (string \<times> json) list \<Rightarrow> (error + json) \<times> files"
where
  "append_with_new_id fs file_path xs d =
     (case next_id xs of
        Inl e \<Rightarrow> (Inl e, fs)
      | Inr new_id \<Rightarrow>
          (let new = JObj (AList.update ''id'' (JInt new_id) d)
           in (Inr new, save_data fs file_path (xs @ [new]))))"

section \<open>The handlers\<close>

text \<open>
  A handler takes the files and its arguments and returns what it returns or raises,
  with the files as it leaves them. Every handler saves last, so an exception leaves
  the files as they were.
\<close>

definition create_project :: "files \<Rightarrow> Project \<Rightarrow> (error + json) \<times> files" where
  "create_project fs project =
     (case load_data fs PROJECTS_DB_FILE of
        Inl e \<Rightarrow> (Inl e, fs)
      | Inr projects \<Rightarrow> append_with_new_id fs PROJECTS_DB_FILE projects (Project_dict project))"

definition update_project :: "files \<Rightarrow> int \<Rightarrow> Project \<Rightarrow> (error + json) \<times> files" where
  "update_project fs project_id updated_project =
     (case load_data fs PROJECTS_DB_FILE of
        Inl e \<Rightarrow> (Inl e, fs)
      | Inr projects \<Rightarrow>
          (case update_first (\<lambda>project. id_matches project project_id)
                  (exclude [''id''] (Project_dict updated_project)) projects of
             Inl e \<Rightarrow> (Inl e, fs)
           | Inr None \<Rightarrow> (Inl (HTTPException 404 ''Project not found''), fs)
           | Inr (Some (project, projects')) \<Rightarrow>
               (Inr project, save_data fs PROJECTS_DB_FILE projects')))"

definition delete_project :: "files \<Rightarrow> int \<Rightarrow> (error + json) \<times> files" where
  "delete_project fs project_id =
     (case load_data fs PROJECTS_DB_FILE of
        Inl e \<Rightarrow> (Inl e, fs)
      | Inr projects \<Rightarrow>
          (case drop_matching (\<lambda>p. id_matches p project_id) projects of
             Inl e \<Rightarrow> (Inl e, fs)
           | Inr projects' \<Rightarrow>
               if length projects' = length projects
               then (Inl (HTTPException 404 ''Project not found''), fs)
               else (Inr (JObj [(''detail'', JStr ''Project deleted'')]),
                     save_data fs PROJECTS_DB_FILE projects')))"

definition register_user :: "files \<Rightarrow> User \<Rightarrow> (error + json) \<times> files" where
  "register_user fs user =
     (case load_data fs USERS_DB_FILE of
        Inl e \<Rightarrow> (Inl e, fs)
      | Inr users \<Rightarrow> append_with_new_id fs USERS_DB_FILE users (User_dict user))"

definition update_task :: "files \<Rightarrow> int \<Rightarrow> int \<Rightarrow> Task \<Rightarrow> (error + json) \<times> files" where
  "update_task fs project_id task_id updated_task =
     (case load_data fs TASKS_DB_FILE of
        Inl e \<Rightarrow> (Inl e, fs)
      | Inr tasks \<Rightarrow>
          (case update_first (\<lambda>task. task_matches task task_id project_id)
                  (exclude [''id'', ''project_id''] (Task_dict updated_task)) tasks of
             Inl e \<Rightarrow> (Inl e, fs)
           | Inr None \<Rightarrow> (Inl (HTTPException 404 ''Task not found''), fs)
           | Inr (Some (task, tasks')) \<Rightarrow> (Inr task, save_data fs TASKS_DB_FILE tasks')))"

definition delete_task :: "files \<Rightarrow> int \<Rightarrow> int \<Rightarrow> (error + json) \<times> files" where
  "delete_task fs project_id task_id =
     (case load_data fs TASKS_DB_FILE of
        Inl e \<Rightarrow> (Inl e, fs)
      | Inr tasks \<Rightarrow>
          (case drop_matching (\<lambda>t. task_matches t task_id project_id) tasks of
             Inl e \<Rightarrow> (Inl e, fs)
           | Inr tasks' \<Rightarrow>
               if length tasks' = length tasks
               then (Inl (HTTPException 404 ''Task not found''), fs)
               else (Inr (JObj [(''detail'', JStr ''Task deleted'')]),
                     save_data fs TASKS_DB_FILE tasks')))"

definition create_form :: "files \<Rightarrow> ParticipationForm \<Rightarrow> (error + json) \<times> files" where
  "create_form fs form =
     (case load_data fs FORMS_DB_FILE of
        Inl e \<Rightarrow> (Inl e, fs)
      | Inr forms \<Rightarrow>
          (case any_match (\<lambda>existing_form.
                    form_matches existing_form (f_user_id form) (f_project_id form)) forms of
             Inl e \<Rightarrow> (Inl e, fs)
           | Inr True \<Rightarrow>
               (Inl (HTTPException 400 ''Form already submitted for this project''), fs)
           | Inr False \<Rightarrow>
               append_with_new_id fs FORMS_DB_FILE forms (ParticipationForm_dict form)))"

definition delete_form :: "files \<Rightarrow> int \<Rightarrow> (error + json) \<times> files" where
  "delete_form fs form_id =
     (case load_data fs FORMS_DB_FILE of
        Inl e \<Rightarrow> (Inl e, fs)
      | Inr forms \<Rightarrow>
          (case drop_matching (\<lambda>f. id_matches f form_id) forms of
             Inl e \<Rightarrow> (Inl e, fs)
           | Inr forms' \<Rightarrow>
               if length forms' = length forms
               then (Inl (HTTPException 404 ''Form not found''), fs)
               else (Inr (JObj [(''detail'', JStr ''Form deleted'')]),
                     save_data fs FORMS_DB_FILE forms')))"

section \<open>The connection manager and the channel endpoint\<close>

text \<open>
  A WebSocket is a handle; what the server does to it is a call. The state is the
  manager's dict from user id to handle, and the calls made so far on any handle, in
  order. \<^verbatim>\<open>accept\<close> and \<^verbatim>\<open>send_text\<close> belong to the framework: the model records
  the call and takes it to return. The \<^verbatim>\<open>print\<close> lines are left out.
\<close>

type_synonym websocket = nat

datatype call = Accept websocket | SendText websocket json

record server =
  active_connections :: "int \<rightharpoonup> websocket"
  calls :: "call list"

definition connect :: "server \<Rightarrow> websocket \<Rightarrow> int \<Rightarrow> server" where
  "connect s websocket user_id =
     s\<lparr>calls := calls s @ [Accept websocket],
       active_connections := (active_connections s)(user_id \<mapsto> websocket)\<rparr>"

definition disconnect :: "server \<Rightarrow> int \<Rightarrow> server" where
  "disconnect s user_id =
     (if user_id \<in> dom (active_connections s)
      then s\<lparr>active_connections := (active_connections s)(user_id := None)\<rparr>
      else s)"

text \<open>
  \<^verbatim>\<open>receiver_id in self.active_connections\<close>: the keys are integers (the path
  parameter \<^verbatim>\<open>user_id: int\<close>), the receiver is whatever the frame held. A number
  finds the key equal to it, \<^verbatim>\<open>None\<close> and strings find nothing, a list or a dict is
  unhashable and raises TypeError.
\<close>

fun find_key :: "json \<Rightarrow> error + int option" where
  "find_key (JInt i) = Inr (Some i)"
| "find_key (JBool b) = Inr (Some (if b then 1 else 0))"
| "find_key JNull = Inr None"
| "find_key (JStr s) = Inr None"
| "find_key (JList xs) = Inl KeyError_or_TypeError"
| "find_key (JObj d) = Inl KeyError_or_TypeError"

definition send_message :: "server \<Rightarrow> int \<Rightarrow> json \<Rightarrow> json \<Rightarrow> (error + unit) \<times> server" where
  "send_message s sender_id receiver_id message =
     (case find_key receiver_id of
        Inl e \<Rightarrow> (Inl e, s)
      | Inr None \<Rightarrow> (Inr (), s)
      | Inr (Some k) \<Rightarrow>
          (case active_connections s k of
             None \<Rightarrow> (Inr (), s)
           | Some websocket \<Rightarrow> (Inr (), s\<lparr>calls := calls s @ [SendText websocket message]\<rparr>)))"

text \<open>
  \<^verbatim>\<open>websocket_endpoint\<close> is a coroutine per connection: it admits the socket, then
  loops on \<^verbatim>\<open>receive_text\<close>. What \<^verbatim>\<open>receive_text\<close> gives is a text frame, or the
  exception WebSocketDisconnect. \<open>receive_step\<close> is one pass of the loop with the
  \<^verbatim>\<open>except\<close> clause around it: the loop goes on, or the coroutine returns (after
  \<^verbatim>\<open>manager.disconnect(user_id)\<close>), or an exception other than WebSocketDisconnect
  leaves it. The passes of different connections interleave; each pass is taken as
  one step.
\<close>

datatype received = Text document | WebSocketDisconnect

datatype outcome = Looping | Returned | Raised error

definition receive_step :: "server \<Rightarrow> websocket \<Rightarrow> int \<Rightarrow> received \<Rightarrow> outcome \<times> server" where
  "receive_step s websocket user_id r =
     (case r of
        WebSocketDisconnect \<Rightarrow> (Returned, disconnect s user_id)
      | Text Malformed \<Rightarrow> (Raised JSONDecodeError, s)
      | Text (Parsed message_data) \<Rightarrow>
          (case getitem message_data ''receiver_id'' of
             Inl e \<Rightarrow> (Raised e, s)
           | Inr receiver_id \<Rightarrow>
               (case getitem message_data ''message'' of
                  Inl e \<Rightarrow> (Raised e, s)
                | Inr message \<Rightarrow>
                    (case send_message s user_id receiver_id message of
                       (Inl e, s') \<Rightarrow> (Raised e, s')
                     | (Inr u, s') \<Rightarrow> (Looping, s')))))"

fun receive_loop :: "server \<Rightarrow> websocket \<Rightarrow> int \<Rightarrow> received list \<Rightarrow> outcome \<times> server" where
  "receive_loop s websocket user_id [] = (Looping, s)"
| "receive_loop s websocket user_id (r # rs) =
     (case receive_step s websocket user_id r of
        (Looping, s') \<Rightarrow> receive_loop s' websocket user_id rs
      | (Returned, s') \<Rightarrow> (Returned, s')
      | (Raised e, s') \<Rightarrow> (Raised e, s'))"

definition websocket_endpoint :: "server \<Rightarrow> websocket \<Rightarrow> int \<Rightarrow> received list \<Rightarrow> outcome \<times> server" where
  "websocket_endpoint s websocket user_id rs =
     receive_loop (connect s websocket user_id) websocket user_id rs"

section \<open>Reading the stored ids, and runs of operations\<close>

text \<open>
  \<open>id_of x\<close> is the number \<^verbatim>\<open>x["id"]\<close> counts as, if the record has one. \<open>int_ids xs ids\<close>
  says that the records \<open>xs\<close> are dicts whose ids are the integers \<open>ids\<close>, in order.
\<close>

definition id_of :: "json \<Rightarrow> int option" where
  "id_of x = (case getitem x ''id'' of Inl e \<Rightarrow> None | Inr v \<Rightarrow> as_int v)"

definition int_ids :: "json list \<Rightarrow> int list \<Rightarrow> bool" where
  "int_ids xs ids = (map (\<lambda>x. getitem x ''id'') xs = map (\<lambda>i. Inr (JInt i)) ids)"

text \<open>
  The state of the projects file that the handlers keep: it loads, and its records are
  dicts whose ids are integers, no two the same.
\<close>

definition distinct_int_ids :: "files \<Rightarrow> bool" where
  "distinct_int_ids fs =
     (\<exists>xs ids. load_data fs PROJECTS_DB_FILE = Inr xs \<and> int_ids xs ids \<and> distinct ids)"

text \<open>
  A sequence of requests on the projects collection, each handled to its end before
  the next starts; a request that raises leaves the files as its handler left them.
\<close>

datatype project_op = Create Project | Update int Project | Delete int

fun apply_project_op :: "files \<Rightarrow> project_op \<Rightarrow> files" where
  "apply_project_op fs (Create project) = snd (create_project fs project)"
| "apply_project_op fs (Update project_id updated_project) =
     snd (update_project fs project_id updated_project)"
| "apply_project_op fs (Delete project_id) = snd (delete_project fs project_id)"

definition run_project_ops :: "files \<Rightarrow> project_op list \<Rightarrow> files" where
  "run_project_ops fs ops = foldl apply_project_op fs ops"

section \<open>Lemmas on the helpers\<close>

subsection \<open>The next id\<close>

text \<open>On records with numeric ids the loop of \<^verbatim>\<open>max\<close> returns their maximum.\<close>

lemma max_id_numbers:
  "map id_of xs = map Some ids \<Longrightarrow> max_id m xs = Inr (Max (insert m (set ids)))"
proof (induction xs arbitrary: m ids)
  case Nil
  then show ?case by simp
next
  case (Cons x xs)
  then obtain i rest where ids: "ids = i # rest" and x: "id_of x = Some i"
    and rest: "map id_of xs = map Some rest"
    by (cases ids) auto
  from x obtain v where v: "getitem x ''id'' = Inr v" "as_int v = Some i"
    by (auto simp: id_of_def split: sum.splits)
  have "max_id m (x # xs) = max_id (max m i) xs"
    using v by simp
  also have "\<dots> = Inr (Max (insert (max m i) (set rest)))"
    using Cons.IH [OF rest] .
  also have "Max (insert (max m i) (set rest)) = Max (insert m (set ids))"
    unfolding ids by (cases "set rest = {}") (auto simp: max.assoc max.commute max.left_commute)
  finally show ?case .
qed

lemma next_id_numbers:
  assumes "map id_of xs = map Some ids"
  shows "next_id xs = Inr (if ids = [] then 1 else Max (set ids) + 1)"
proof (cases xs)
  case Nil
  with assms show ?thesis by (simp add: next_id_def)
next
  case (Cons x rest)
  with assms obtain i js where ids: "ids = i # js" and x: "id_of x = Some i"
    and rest: "map id_of rest = map Some js"
    by (cases ids) auto
  from x obtain v where v: "getitem x ''id'' = Inr v" "as_int v = Some i"
    by (auto simp: id_of_def split: sum.splits)
  show ?thesis
    using v max_id_numbers [OF rest, of i] by (simp add: next_id_def Cons ids)
qed

subsection \<open>The loops\<close>

text \<open>
  Where the condition raises on no record, the comprehension is a filter; the merge
  of \<^verbatim>\<open>update\<close> reads as the sum of two maps; a hit of the update loop splits the
  list around the record it changed.
\<close>

lemma drop_matching_total:
  "\<forall>x\<in>set xs. \<exists>b. cond x = Inr b \<Longrightarrow>
   drop_matching cond xs = Inr (filter (\<lambda>x. cond x \<noteq> Inr True) xs)"
  by (induction xs) auto

lemma map_of_dict_update:
  "map_of (dict_update old d) = map_of old ++ map_of (rev d)"
  unfolding dict_update_def
proof (induction d arbitrary: old)
  case Nil
  then show ?case by simp
next
  case (Cons kv d)
  obtain k v where kv: "kv = (k, v)" by (cases kv)
  have "map_of (fold (\<lambda>(k, v). AList.update k v) (kv # d) old)
      = (map_of old)(k \<mapsto> v) ++ map_of (rev d)"
    unfolding kv fold_Cons comp_apply prod.case Cons.IH update_conv' ..
  also have "\<dots> = map_of old ++ map_of (rev (kv # d))"
    by (simp add: kv map_add_def fun_eq_iff split: option.splits)
  finally show ?case .
qed



lemma update_first_Some:
  "update_first cond d xs = Inr (Some (y, ys)) \<Longrightarrow>
   \<exists>pre old post. xs = pre @ JObj old # post \<and> (\<forall>x\<in>set pre. cond x = Inr False) \<and>
     cond (JObj old) = Inr True \<and> y = JObj (dict_update old d) \<and> ys = pre @ y # post"
proof (induction xs arbitrary: y ys)
  case Nil
  then show ?case by simp
next
  case (Cons x xs)
  show ?case
  proof (cases "cond x")
    case (Inl e)
    with Cons.prems show ?thesis by simp
  next
    case (Inr b)
    show ?thesis
    proof (cases b)
      case True
      with Inr Cons.prems obtain old where "x = JObj old" "y = JObj (dict_update old d)" "ys = y # xs"
        by (auto split: json.splits)
      with Inr True show ?thesis
        by (intro exI [of _ "[]"] exI [of _ old] exI [of _ xs]) simp
    next
      case False
      with Inr Cons.prems obtain zs where rec: "update_first cond d xs = Inr (Some (y, zs))"
        and ys: "ys = x # zs"
        by (auto split: sum.splits option.splits)
      from Cons.IH [OF rec] obtain pre old post where
        "xs = pre @ JObj old # post" "\<forall>x\<in>set pre. cond x = Inr False"
        "cond (JObj old) = Inr True" "y = JObj (dict_update old d)" "zs = pre @ y # post"
        by blast
      with Inr False ys show ?thesis
        by (intro exI [of _ "x # pre"] exI [of _ old] exI [of _ post]) simp
    qed
  qed
qed

subsection \<open>Appending under the next id\<close>

lemma getitem_update_same: "getitem (JObj (AList.update k v d)) k = Inr v"
  by (simp add: update_conv')

lemma id_of_new: "id_of (JObj (AList.update ''id'' (JInt n) d)) = Some n"
  by (simp add: id_of_def update_conv')

lemma load_data_save_data: "load_data (save_data fs file_path xs) file_path = Inr xs"
  by (simp add: load_data_def save_data_def)

lemma Max_next: "finite S \<Longrightarrow> Max (insert (if S = {} then 1 else Max S + 1) S)
   = (if S = {} then 1 else Max S + (1::int))"
  by (auto simp: max_def)

lemma append_with_new_id_numbers:
  assumes "map id_of xs = map Some ids"
  shows "append_with_new_id fs file_path xs d =
     (Inr (JObj (AList.update ''id'' (JInt (if ids = [] then 1 else Max (set ids) + 1)) d)),
      save_data fs file_path
        (xs @ [JObj (AList.update ''id'' (JInt (if ids = [] then 1 else Max (set ids) + 1)) d)]))"
  using next_id_numbers [OF assms] by (simp add: append_with_new_id_def Let_def)

lemma append_with_new_id_again:
  assumes "map id_of xs = map Some ids"
  shows "append_with_new_id fs' file_path
       (xs @ [JObj (AList.update ''id'' (JInt (if ids = [] then 1 else Max (set ids) + 1)) d)]) d' =
     (Inr (JObj (AList.update ''id'' (JInt ((if ids = [] then 1 else Max (set ids) + 1) + 1)) d')),
      save_data fs' file_path
        (xs @ [JObj (AList.update ''id'' (JInt (if ids = [] then 1 else Max (set ids) + 1)) d),
               JObj (AList.update ''id'' (JInt ((if ids = [] then 1 else Max (set ids) + 1) + 1)) d')]))"
proof -
  let ?n = "if ids = [] then 1 else Max (set ids) + 1"
  have "map id_of (xs @ [JObj (AList.update ''id'' (JInt ?n) d)]) = map Some (ids @ [?n])"
    using assms by (simp add: id_of_new)
  from append_with_new_id_numbers [OF this, of fs' file_path d']
  show ?thesis
    using Max_next [of "set ids"] by simp
qed

subsection \<open>Matching, deleting and updating\<close>

lemma any_match_forms:
  "map (\<lambda>x. getitem x ''user_id'') forms = map (\<lambda>u. Inr (JInt u)) uids \<Longrightarrow>
   map (\<lambda>x. getitem x ''project_id'') forms = map (\<lambda>p. Inr (JInt p)) pids \<Longrightarrow>
   any_match (\<lambda>existing_form. form_matches existing_form u p) forms
     = Inr ((u, p) \<in> set (zip uids pids))"
proof (induction forms arbitrary: uids pids)
  case Nil
  then show ?case by simp
next
  case (Cons x forms)
  from Cons.prems obtain u' us p' ps where uids: "uids = u' # us" and pids: "pids = p' # ps"
    by (cases uids; cases pids) auto
  from Cons.prems have x: "getitem x ''user_id'' = Inr (JInt u')"
      "getitem x ''project_id'' = Inr (JInt p')"
    and rest: "map (\<lambda>x. getitem x ''user_id'') forms = map (\<lambda>u. Inr (JInt u)) us"
      "map (\<lambda>x. getitem x ''project_id'') forms = map (\<lambda>p. Inr (JInt p)) ps"
    by (simp_all add: uids pids)
  have head: "form_matches x u p = Inr (u' = u \<and> p' = p)"
    using x by (simp add: form_matches_def eq_int_def)
  show ?case
    using Cons.IH [OF rest] head by (cases "u' = u \<and> p' = p") (auto simp: uids pids)
qed

lemma length_filter_eq_iff:
  "(length (filter P xs) = length xs) = (\<forall>x\<in>set xs. P x)"
proof (induction xs)
  case Nil
  then show ?case by simp
next
  case (Cons x xs)
  have "length (filter P xs) \<le> length xs" by (rule length_filter_le)
  then have "length (filter P xs) \<noteq> Suc (length xs)" by arith
  with Cons show ?case by simp
qed

lemma id_matches_total:
  "getitem x ''id'' = Inr v \<Longrightarrow> \<exists>b. id_matches x n = Inr b"
  by (simp add: id_matches_def)

lemma task_matches_total:
  "getitem t ''id'' = Inr v \<Longrightarrow> getitem t ''project_id'' = Inr w \<Longrightarrow>
   \<exists>b. task_matches t task_id project_id = Inr b"
  by (cases "eq_int v task_id") (auto simp: task_matches_def)

lemma update_project_Inr:
  assumes "update_project fs project_id updated_project = (Inr r, fs')"
      and "load_data fs PROJECTS_DB_FILE = Inr xs"
  shows "\<exists>ys. update_first (\<lambda>project. id_matches project project_id)
            (exclude [''id''] (Project_dict updated_project)) xs = Inr (Some (r, ys))
          \<and> fs' = save_data fs PROJECTS_DB_FILE ys"
  using assms by (auto simp: update_project_def split: sum.splits option.splits)

lemma update_task_Inr:
  assumes "update_task fs project_id task_id updated_task = (Inr r, fs')"
      and "load_data fs TASKS_DB_FILE = Inr xs"
  shows "\<exists>ys. update_first (\<lambda>task. task_matches task task_id project_id)
            (exclude [''id'', ''project_id''] (Task_dict updated_task)) xs = Inr (Some (r, ys))
          \<and> fs' = save_data fs TASKS_DB_FILE ys"
  using assms by (auto simp: update_task_def split: sum.splits option.splits)

lemma project_merge:
  "getitem (JObj (dict_update old (exclude [''id''] (Project_dict updated_project)))) k =
     (if k \<in> {''name'', ''description'', ''podrazdelenie'', ''date'', ''skills''}
      then getitem (JObj (Project_dict updated_project)) k
      else getitem (JObj old) k)"
  by (simp add: map_of_dict_update map_add_def exclude_def Project_dict_def)

lemma task_merge:
  "getitem (JObj (dict_update old (exclude [''id'', ''project_id''] (Task_dict updated_task)))) k =
     (if k \<in> {''name'', ''description'', ''date'', ''status''}
      then getitem (JObj (Task_dict updated_task)) k
      else getitem (JObj old) k)"
  by (simp add: map_of_dict_update map_add_def exclude_def Task_dict_def)

lemma delete_pattern:
  assumes "\<forall>x\<in>set xs. \<exists>b. cond x = Inr b"
  shows "(case drop_matching cond xs of
            Inl e \<Rightarrow> (Inl e, fs)
          | Inr ys \<Rightarrow> if length ys = length xs then (Inl not_found, fs)
                      else (Inr ok, save_data fs file_path ys))
     = (if \<exists>x\<in>set xs. cond x = Inr True
        then (Inr ok, save_data fs file_path (filter (\<lambda>x. cond x \<noteq> Inr True) xs))
        else (Inl not_found, fs))"
  by (simp add: drop_matching_total [OF assms] length_filter_eq_iff)

lemma update_project_result:
  assumes "update_project fs project_id updated_project = (Inr r, fs')"
      and "load_data fs PROJECTS_DB_FILE = Inr xs"
  shows "\<exists>pre old post. xs = pre @ JObj old # post
        \<and> (\<forall>x\<in>set pre. id_matches x project_id = Inr False)
        \<and> id_matches (JObj old) project_id = Inr True
        \<and> r = JObj (dict_update old (exclude [''id''] (Project_dict updated_project)))
        \<and> fs' = save_data fs PROJECTS_DB_FILE (pre @ r # post)
        \<and> getitem r ''id'' = getitem (JObj old) ''id''
        \<and> (\<forall>k. getitem r k =
              (if k \<in> {''name'', ''description'', ''podrazdelenie'', ''date'', ''skills''}
               then getitem (JObj (Project_dict updated_project)) k
               else getitem (JObj old) k))"
proof -
  from update_project_Inr [OF assms] obtain ys where
    "update_first (\<lambda>project. id_matches project project_id)
       (exclude [''id''] (Project_dict updated_project)) xs = Inr (Some (r, ys))"
    and fs': "fs' = save_data fs PROJECTS_DB_FILE ys"
    by blast
  from update_first_Some [OF this(1)] obtain pre old post where
    split: "xs = pre @ JObj old # post"
      "\<forall>x\<in>set pre. id_matches x project_id = Inr False"
      "id_matches (JObj old) project_id = Inr True"
    and r: "r = JObj (dict_update old (exclude [''id''] (Project_dict updated_project)))"
    and ys: "ys = pre @ r # post"
    by blast
  have merge: "\<forall>k. getitem r k =
              (if k \<in> {''name'', ''description'', ''podrazdelenie'', ''date'', ''skills''}
               then getitem (JObj (Project_dict updated_project)) k
               else getitem (JObj old) k)"
    unfolding r using project_merge by blast
  then have "getitem r ''id'' = getitem (JObj old) ''id''"
    by simp
  with split r fs' ys merge show ?thesis
    by blast
qed

lemma update_task_result:
  assumes "update_task fs project_id task_id updated_task = (Inr r, fs')"
      and "load_data fs TASKS_DB_FILE = Inr xs"
  shows "\<exists>pre old post. xs = pre @ JObj old # post
        \<and> (\<forall>x\<in>set pre. task_matches x task_id project_id = Inr False)
        \<and> task_matches (JObj old) task_id project_id = Inr True
        \<and> r = JObj (dict_update old (exclude [''id'', ''project_id''] (Task_dict updated_task)))
        \<and> fs' = save_data fs TASKS_DB_FILE (pre @ r # post)
        \<and> getitem r ''id'' = getitem (JObj old) ''id''
        \<and> getitem r ''project_id'' = getitem (JObj old) ''project_id''
        \<and> (\<forall>k. getitem r k =
              (if k \<in> {''name'', ''description'', ''date'', ''status''}
               then getitem (JObj (Task_dict updated_task)) k
               else getitem (JObj old) k))"
proof -
  from update_task_Inr [OF assms] obtain ys where
    "update_first (\<lambda>task. task_matches task task_id project_id)
       (exclude [''id'', ''project_id''] (Task_dict updated_task)) xs = Inr (Some (r, ys))"
    and fs': "fs' = save_data fs TASKS_DB_FILE ys"
    by blast
  from update_first_Some [OF this(1)] obtain pre old post where
    split: "xs = pre @ JObj old # post"
      "\<forall>x\<in>set pre. task_matches x task_id project_id = Inr False"
      "task_matches (JObj old) task_id project_id = Inr True"
    and r: "r = JObj (dict_update old (exclude [''id'', ''project_id''] (Task_dict updated_task)))"
    and ys: "ys = pre @ r # post"
    by blast
  have merge: "\<forall>k. getitem r k =
              (if k \<in> {''name'', ''description'', ''date'', ''status''}
               then getitem (JObj (Task_dict updated_task)) k
               else getitem (JObj old) k)"
    unfolding r using task_merge by blast
  then have "getitem r ''id'' = getitem (JObj old) ''id''"
    and "getitem r ''project_id'' = getitem (JObj old) ''project_id''"
    by simp_all
  with split r fs' ys merge show ?thesis
    by blast
qed

subsection \<open>The projects file keeps distinct integer ids\<close>

lemma int_ids_id_of: "int_ids xs ids \<Longrightarrow> map id_of xs = map Some ids"
  unfolding int_ids_def
proof (induction xs arbitrary: ids)
  case Nil
  then show ?case by simp
next
  case (Cons x xs)
  then show ?case by (cases ids) (auto simp: id_of_def)
qed

lemma next_not_in_ids:
  "(if ids = [] then 1 else Max (set ids) + (1::int)) \<notin> set ids"
proof (cases "ids = []")
  case True
  then show ?thesis by simp
next
  case False
  have "Max (set ids) + 1 \<notin> set ids"
  proof
    assume "Max (set ids) + 1 \<in> set ids"
    then have "Max (set ids) + 1 \<le> Max (set ids)" by (intro Max_ge) simp_all
    then show False by simp
  qed
  with False show ?thesis by simp
qed

lemma int_ids_filter:
  "int_ids xs ids \<Longrightarrow> distinct ids \<Longrightarrow>
   \<exists>ids'. int_ids (filter P xs) ids' \<and> distinct ids'"
  unfolding int_ids_def
proof (induction xs arbitrary: ids)
  case Nil
  then show ?case by simp
next
  case (Cons x xs)
  then obtain i rest where ids: "ids = i # rest" by (cases ids) auto
  with Cons.prems have x: "getitem x ''id'' = Inr (JInt i)"
    and rest: "map (\<lambda>x. getitem x ''id'') xs = map (\<lambda>i. Inr (JInt i)) rest"
    and d: "distinct rest" "i \<notin> set rest"
    by simp_all
  from Cons.IH [OF rest d(1)] obtain ids' where
    ids': "map (\<lambda>x. getitem x ''id'') (filter P xs) = map (\<lambda>i. Inr (JInt i)) ids'" "distinct ids'"
    by blast
  have "set (map (\<lambda>x. getitem x ''id'') (filter P xs)) \<subseteq> set (map (\<lambda>x. getitem x ''id'') xs)"
    by auto
  then have "set (map (\<lambda>i. Inr (JInt i) :: error + json) ids') \<subseteq> set (map (\<lambda>i. Inr (JInt i)) rest)"
    unfolding ids'(1) rest .
  then have "set ids' \<subseteq> set rest" by auto
  with d have "i \<notin> set ids'" by blast
  show ?case
  proof (cases "P x")
    case True
    with x ids' \<open>i \<notin> set ids'\<close> show ?thesis
      by (intro exI [of _ "i # ids'"]) simp
  next
    case False
    with ids' show ?thesis by (intro exI [of _ ids']) simp
  qed
qed

lemma create_project_keeps:
  assumes "distinct_int_ids fs"
  shows "distinct_int_ids (snd (create_project fs project))"
proof -
  from assms obtain xs ids where xs: "load_data fs PROJECTS_DB_FILE = Inr xs"
    and ids: "int_ids xs ids" "distinct ids"
    unfolding distinct_int_ids_def by blast
  let ?n = "if ids = [] then 1 else Max (set ids) + 1"
  let ?new = "JObj (AList.update ''id'' (JInt ?n) (Project_dict project))"
  have "snd (create_project fs project) = save_data fs PROJECTS_DB_FILE (xs @ [?new])"
    by (simp add: create_project_def xs append_with_new_id_numbers [OF int_ids_id_of [OF ids(1)]])
  moreover have "int_ids (xs @ [?new]) (ids @ [?n])"
    using ids(1) unfolding int_ids_def by (simp add: update_conv')
  moreover have "distinct (ids @ [?n])"
    using ids(2) next_not_in_ids [of ids] by simp
  ultimately show ?thesis
    unfolding distinct_int_ids_def using load_data_save_data by metis
qed

lemma update_project_keeps:
  assumes "distinct_int_ids fs"
  shows "distinct_int_ids (snd (update_project fs project_id updated_project))"
proof (cases "update_project fs project_id updated_project")
  case (Pair res fs')
  from assms obtain xs ids where xs: "load_data fs PROJECTS_DB_FILE = Inr xs"
    and ids: "int_ids xs ids" "distinct ids"
    unfolding distinct_int_ids_def by blast
  show ?thesis
  proof (cases res)
    case (Inl e)
    with Pair have "fs' = fs"
      by (auto simp: update_project_def xs split: sum.splits option.splits)
    with Pair assms show ?thesis by simp
  next
    case (Inr r)
    with Pair have "update_project fs project_id updated_project = (Inr r, fs')" by simp
    from update_project_result [OF this xs]
    obtain pre old post where split: "xs = pre @ JObj old # post"
      and fs': "fs' = save_data fs PROJECTS_DB_FILE (pre @ r # post)"
      and same: "getitem r ''id'' = getitem (JObj old) ''id''"
      by blast
    have "int_ids (pre @ r # post) ids"
      using ids(1) same unfolding int_ids_def split by simp
    with ids(2) show ?thesis
      unfolding distinct_int_ids_def Pair snd_conv fs' using load_data_save_data by metis
  qed
qed

lemma delete_project_keeps:
  assumes "distinct_int_ids fs"
  shows "distinct_int_ids (snd (delete_project fs project_id))"
proof -
  from assms obtain xs ids where xs: "load_data fs PROJECTS_DB_FILE = Inr xs"
    and ids: "int_ids xs ids" "distinct ids"
    unfolding distinct_int_ids_def by blast
  have "\<forall>x\<in>set xs. \<exists>v. getitem x ''id'' = Inr v"
  proof
    fix x assume "x \<in> set xs"
    then have "getitem x ''id'' \<in> set (map (\<lambda>x. getitem x ''id'') xs)" by simp
    then show "\<exists>v. getitem x ''id'' = Inr v"
      using ids(1) unfolding int_ids_def by auto
  qed
  then have "\<forall>x\<in>set xs. \<exists>b. id_matches x project_id = Inr b"
    using id_matches_total by blast
  from drop_matching_total [OF this]
  have del: "delete_project fs project_id =
      (if length (filter (\<lambda>x. id_matches x project_id \<noteq> Inr True) xs) = length xs
       then (Inl (HTTPException 404 ''Project not found''), fs)
       else (Inr (JObj [(''detail'', JStr ''Project deleted'')]),
             save_data fs PROJECTS_DB_FILE (filter (\<lambda>x. id_matches x project_id \<noteq> Inr True) xs)))"
    by (simp add: delete_project_def xs)
  from int_ids_filter [OF ids] obtain ids' where
    "int_ids (filter (\<lambda>x. id_matches x project_id \<noteq> Inr True) xs) ids'" "distinct ids'"
    by blast
  then have "distinct_int_ids
      (save_data fs PROJECTS_DB_FILE (filter (\<lambda>x. id_matches x project_id \<noteq> Inr True) xs))"
    unfolding distinct_int_ids_def using load_data_save_data by metis
  with assms show ?thesis
    unfolding del by simp
qed

lemma apply_project_op_keeps:
  "distinct_int_ids fs \<Longrightarrow> distinct_int_ids (apply_project_op fs op)"
  by (cases op) (simp_all add: create_project_keeps update_project_keeps delete_project_keeps)

lemma run_project_ops_keeps:
  "distinct_int_ids fs \<Longrightarrow> distinct_int_ids (run_project_ops fs ops)"
  unfolding run_project_ops_def
  by (induction ops arbitrary: fs) (simp_all add: apply_project_op_keeps)

section \<open>Routing and the registry\<close>

text \<open>
  C1. Route: in every state of the registry, \<^verbatim>\<open>send_message\<close> to a receiver id that
  is mapped makes exactly one call, \<^verbatim>\<open>send_text\<close> of the unchanged message on the
  mapped socket; to a receiver id that is not mapped it makes no call, leaves the
  state as it was and raises nothing. The registry is the same afterwards in both
  cases.
\<close>

theorem send_message_delivers_once_or_drops:
  "send_message s sender_id (JInt receiver_id) message =
     (case active_connections s receiver_id of
        Some websocket \<Rightarrow> (Inr (), s\<lparr>calls := calls s @ [SendText websocket message]\<rparr>)
      | None \<Rightarrow> (Inr (), s))
   \<and> active_connections (snd (send_message s sender_id (JInt receiver_id) message))
       = active_connections s
   \<and> calls (snd (send_message s sender_id (JInt receiver_id) message))
       = calls s @ (case active_connections s receiver_id of
                      Some websocket \<Rightarrow> [SendText websocket message] | None \<Rightarrow> [])"
  by (simp add: send_message_def split: option.splits)

text \<open>
  The routing example: user 5 on socket 10, user 7 on socket 11; a message from 5 to
  7 is sent once on socket 11, a message to 9 is dropped.
\<close>

theorem send_message_delivers_once_or_drops_witness:
  "send_message (connect (connect \<lparr>active_connections = Map.empty, calls = []\<rparr> 10 5) 11 7)
      5 (JInt 7) (JStr ''hi'')
   = (Inr (), \<lparr>active_connections = [5 \<mapsto> 10, 7 \<mapsto> 11],
               calls = [Accept 10, Accept 11, SendText 11 (JStr ''hi'')]\<rparr>)
   \<and> send_message (connect (connect \<lparr>active_connections = Map.empty, calls = []\<rparr> 10 5) 11 7)
      5 (JInt 9) (JStr ''hi'')
   = (Inr (), \<lparr>active_connections = [5 \<mapsto> 10, 7 \<mapsto> 11],
               calls = [Accept 10, Accept 11]\<rparr>)"
  using send_message_delivers_once_or_drops
      [of "connect (connect \<lparr>active_connections = Map.empty, calls = []\<rparr> 10 5) 11 7" 5 7 "JStr ''hi''"]
    send_message_delivers_once_or_drops
      [of "connect (connect \<lparr>active_connections = Map.empty, calls = []\<rparr> 10 5) 11 7" 5 9 "JStr ''hi''"]
  by (simp add: connect_def)

text \<open>
  C2. Re-admission, the last one wins: after \<^verbatim>\<open>connect\<close> of socket \<open>A\<close> and then of
  socket \<open>C\<close> under the same user id \<open>u\<close>, the registry maps \<open>u\<close> to \<open>C\<close>; a message
  routed to \<open>u\<close> is one \<^verbatim>\<open>send_text\<close> on \<open>C\<close>, and when \<open>A\<close> is another socket
  nothing is sent on \<open>A\<close>.
\<close>

theorem readmission_last_wins:
  "active_connections (connect (connect s A u) C u) u = Some C
   \<and> send_message (connect (connect s A u) C u) x (JInt u) message
       = (Inr (), (connect (connect s A u) C u)
                    \<lparr>calls := calls (connect (connect s A u) C u) @ [SendText C message]\<rparr>)
   \<and> (A \<noteq> C \<longrightarrow>
        (\<forall>m. SendText A m \<notin> set (drop (length (calls (connect (connect s A u) C u)))
              (calls (snd (send_message (connect (connect s A u) C u) x (JInt u) message))))))"
  by (simp add: send_message_def connect_def)

theorem readmission_last_wins_witness:
  "active_connections (connect (connect \<lparr>active_connections = Map.empty, calls = []\<rparr> 10 5) 12 5) 5 = Some 12
   \<and> send_message (connect (connect \<lparr>active_connections = Map.empty, calls = []\<rparr> 10 5) 12 5)
        7 (JInt 5) (JStr ''hi'')
      = (Inr (), \<lparr>active_connections = [5 \<mapsto> 12],
                  calls = [Accept 10, Accept 12, SendText 12 (JStr ''hi'')]\<rparr>)
   \<and> (10::nat) \<noteq> 12
   \<and> (\<forall>m. SendText 10 m \<notin> set (drop (length (calls (connect (connect
                \<lparr>active_connections = Map.empty, calls = []\<rparr> 10 5) 12 5)))
              (calls (snd (send_message (connect (connect
                \<lparr>active_connections = Map.empty, calls = []\<rparr> 10 5) 12 5) 7 (JInt 5) (JStr ''hi''))))))"
  using readmission_last_wins
      [of "\<lparr>active_connections = Map.empty, calls = []\<rparr>" 10 5 12 7 "JStr ''hi''"]
  by (simp add: connect_def)

text \<open>
  C3. Eviction: \<^verbatim>\<open>disconnect\<close> of \<open>u\<close> leaves the registry without an entry for \<open>u\<close>
  and with every other entry as it was, and makes no call; when \<open>u\<close> has no entry the
  state is unchanged. After \<^verbatim>\<open>connect\<close> of \<open>A\<close> under \<open>u\<close> and \<^verbatim>\<open>disconnect\<close> of \<open>u\<close>,
  a message routed to \<open>u\<close> is dropped: no call, no exception.
\<close>

theorem disconnect_evicts:
  "active_connections (disconnect s u) = (active_connections s)(u := None)
   \<and> calls (disconnect s u) = calls s
   \<and> (active_connections s u = None \<longrightarrow> disconnect s u = s)
   \<and> send_message (disconnect (connect s A u) u) x (JInt u) message
       = (Inr (), disconnect (connect s A u) u)"
  by (auto simp: disconnect_def send_message_def connect_def dom_def fun_upd_idem)

theorem disconnect_evicts_witness:
  "active_connections (disconnect \<lparr>active_connections = [7 \<mapsto> 11], calls = []\<rparr> 5) = [7 \<mapsto> 11]
   \<and> active_connections \<lparr>active_connections = [7 \<mapsto> 11], calls = []\<rparr> 5 = None
   \<and> disconnect \<lparr>active_connections = [7 \<mapsto> 11], calls = []\<rparr> 5
       = \<lparr>active_connections = [7 \<mapsto> 11], calls = []\<rparr>
   \<and> send_message (disconnect (connect \<lparr>active_connections = [7 \<mapsto> 11], calls = []\<rparr> 10 5) 5)
        7 (JInt 5) (JStr ''hi'')
       = (Inr (), \<lparr>active_connections = [7 \<mapsto> 11], calls = [Accept 10]\<rparr>)"
  using disconnect_evicts [of "\<lparr>active_connections = [7 \<mapsto> 11], calls = []\<rparr>" 5 10 7 "JStr ''hi''"]
  by (simp add: connect_def disconnect_def)

text \<open>
  C9. A stale socket's disconnect evicts its replacement. The endpoint is admission
  followed by its loop, so an endpoint that has met no frame yet has admitted its socket
  and waits. The endpoint of socket \<open>A\<close> admits it under \<open>u\<close> and waits, the endpoint
  of socket \<open>C\<close> admits it under the same \<open>u\<close> and waits: the registry now maps \<open>u\<close>
  to \<open>C\<close>, and a message routed to \<open>u\<close> is sent on \<open>C\<close>. Then the loop of \<open>A\<close>'s
  endpoint meets WebSocketDisconnect. It returns after \<^verbatim>\<open>manager.disconnect(u)\<close>, which
  deletes the entry of \<open>u\<close> though it holds \<open>C\<close>: the registry has no entry for \<open>u\<close>,
  no call has been made on either socket, and a message routed to \<open>u\<close> is dropped,
  sent neither on \<open>A\<close> nor on \<open>C\<close>. An endpoint that meets WebSocketDisconnect as its
  first event evicts in the same way.
\<close>

theorem stale_disconnect_evicts_replacement:
  "websocket_endpoint s A u rs = receive_loop (connect s A u) A u rs
   \<and> websocket_endpoint s A u [] = (Looping, connect s A u)
   \<and> websocket_endpoint (connect s A u) C u [] = (Looping, connect (connect s A u) C u)
   \<and> active_connections (connect (connect s A u) C u) u = Some C
   \<and> send_message (connect (connect s A u) C u) x (JInt u) message
       = (Inr (), (connect (connect s A u) C u)
                    \<lparr>calls := calls (connect (connect s A u) C u) @ [SendText C message]\<rparr>)
   \<and> receive_loop (connect (connect s A u) C u) A u [WebSocketDisconnect]
       = (Returned, disconnect (connect (connect s A u) C u) u)
   \<and> receive_loop (connect (connect s A u) C u) A u [WebSocketDisconnect]
       = (Returned, (connect (connect s A u) C u)
                      \<lparr>active_connections := (active_connections s)(u := None)\<rparr>)
   \<and> active_connections
        (snd (receive_loop (connect (connect s A u) C u) A u [WebSocketDisconnect])) u = None
   \<and> calls (snd (receive_loop (connect (connect s A u) C u) A u [WebSocketDisconnect]))
       = calls (connect (connect s A u) C u)
   \<and> send_message (snd (receive_loop (connect (connect s A u) C u) A u [WebSocketDisconnect]))
        x (JInt u) message
       = (Inr (), snd (receive_loop (connect (connect s A u) C u) A u [WebSocketDisconnect]))
   \<and> websocket_endpoint s A u [WebSocketDisconnect] = (Returned, disconnect (connect s A u) u)
   \<and> websocket_endpoint (connect s C u) A u [WebSocketDisconnect]
       = (Returned, (connect (connect s C u) A u)
                      \<lparr>active_connections := (active_connections s)(u := None)\<rparr>)
   \<and> active_connections (snd (websocket_endpoint s A u [WebSocketDisconnect])) u = None"
  by (simp add: websocket_endpoint_def receive_step_def disconnect_def send_message_def
      connect_def)

text \<open>
  Sockets 10 and 12 under user 5, from the empty registry: before the disconnect of
  socket 10 the registry holds socket 12 and a message to 5 is sent on it; afterwards
  the registry is empty and the message is dropped.
\<close>

theorem stale_disconnect_evicts_replacement_witness:
  "websocket_endpoint \<lparr>active_connections = Map.empty, calls = []\<rparr> 10 5 []
     = (Looping, \<lparr>active_connections = [5 \<mapsto> 10], calls = [Accept 10]\<rparr>)
   \<and> websocket_endpoint \<lparr>active_connections = [5 \<mapsto> 10], calls = [Accept 10]\<rparr> 12 5 []
     = (Looping, \<lparr>active_connections = [5 \<mapsto> 12], calls = [Accept 10, Accept 12]\<rparr>)
   \<and> send_message \<lparr>active_connections = [5 \<mapsto> 12], calls = [Accept 10, Accept 12]\<rparr>
        7 (JInt 5) (JStr ''hi'')
     = (Inr (), \<lparr>active_connections = [5 \<mapsto> 12],
                 calls = [Accept 10, Accept 12, SendText 12 (JStr ''hi'')]\<rparr>)
   \<and> receive_loop \<lparr>active_connections = [5 \<mapsto> 12], calls = [Accept 10, Accept 12]\<rparr>
      10 5 [WebSocketDisconnect]
     = (Returned, \<lparr>active_connections = Map.empty, calls = [Accept 10, Accept 12]\<rparr>)
   \<and> send_message \<lparr>active_connections = Map.empty, calls = [Accept 10, Accept 12]\<rparr>
        7 (JInt 5) (JStr ''hi'')
     = (Inr (), \<lparr>active_connections = Map.empty, calls = [Accept 10, Accept 12]\<rparr>)
   \<and> websocket_endpoint \<lparr>active_connections = [5 \<mapsto> 12], calls = [Accept 12]\<rparr>
      10 5 [WebSocketDisconnect]
     = (Returned, \<lparr>active_connections = Map.empty, calls = [Accept 12, Accept 10]\<rparr>)"
  using stale_disconnect_evicts_replacement
      [of "\<lparr>active_connections = Map.empty, calls = []\<rparr>" 10 5 "[]" 12 7 "JStr ''hi''"]
  by (simp add: connect_def receive_step_def disconnect_def send_message_def
      websocket_endpoint_def)

section \<open>The record store\<close>

text \<open>
  C4, as the claim states it, fails: a file whose text is not JSON makes
  \<^verbatim>\<open>load_data\<close> raise JSONDecodeError instead of returning the empty list.
\<close>

theorem load_data_unparsable_raises:
  "load_data [''projects.json'' \<mapsto> Malformed] ''projects.json'' = Inl JSONDecodeError"
  by (simp add: load_data_def)

text \<open>
  C4, amended. \<^verbatim>\<open>load_data\<close> returns the empty list when the file is absent, the
  stored list when the file holds a JSON list (in particular what \<^verbatim>\<open>save_data\<close> wrote
  last), and the empty list when the file holds JSON that is no list. It raises nothing
  in these cases: an exception leaves it only on a file whose text does not parse.
\<close>

theorem load_data_cases:
  "(fs file_path = None \<longrightarrow> load_data fs file_path = Inr [])
   \<and> (fs file_path = Some (Parsed (JList xs)) \<longrightarrow> load_data fs file_path = Inr xs)
   \<and> (fs file_path = Some (Parsed v) \<and> (\<forall>ys. v \<noteq> JList ys) \<longrightarrow> load_data fs file_path = Inr [])
   \<and> ((\<exists>e. load_data fs file_path = Inl e) \<longrightarrow> fs file_path = Some Malformed)
   \<and> load_data (save_data fs file_path xs) file_path = Inr xs"
  by (auto simp: load_data_def save_data_def split: json.splits option.splits document.splits)

theorem load_data_cases_witness:
  "load_data Map.empty ''projects.json'' = Inr []
   \<and> load_data [''projects.json'' \<mapsto> Parsed (JList [JObj [(''id'', JInt 1)]])] ''projects.json''
       = Inr [JObj [(''id'', JInt 1)]]
   \<and> load_data [''projects.json'' \<mapsto> Parsed (JObj [(''id'', JInt 1)])] ''projects.json'' = Inr []
   \<and> (\<exists>e. load_data [''users.json'' \<mapsto> Malformed] ''users.json'' = Inl e)
   \<and> [''users.json'' \<mapsto> Malformed] ''users.json'' = Some Malformed
   \<and> load_data (save_data [''projects.json'' \<mapsto> Malformed] ''projects.json''
                   [JObj [(''id'', JInt 1)]]) ''projects.json''
       = Inr [JObj [(''id'', JInt 1)]]"
  using load_data_cases [of Map.empty "''projects.json''"]
    load_data_cases [of "[''projects.json'' \<mapsto> Parsed (JList [JObj [(''id'', JInt 1)]])]"
      "''projects.json''" "[JObj [(''id'', JInt 1)]]"]
    load_data_cases [of "[''projects.json'' \<mapsto> Parsed (JObj [(''id'', JInt 1)])]"
      "''projects.json''" _ "JObj [(''id'', JInt 1)]"]
    load_data_cases [of "[''users.json'' \<mapsto> Malformed]" "''users.json''"]
    load_data_cases [of "[''projects.json'' \<mapsto> Malformed]" "''projects.json''"
      "[JObj [(''id'', JInt 1)]]"]
  by (simp add: load_data_def)

section \<open>The entity services\<close>

text \<open>
  C5. Id assignment: on a collection whose records carry the numbers \<open>ids\<close> as ids, the
  create handlers (\<^verbatim>\<open>create_project\<close>, \<^verbatim>\<open>register_user\<close>, and \<^verbatim>\<open>create_form\<close> when
  no stored form has the same user and project) give the new record the id \<open>n\<close>, which
  is 1 on the empty collection and the largest stored id plus 1 otherwise, save the
  collection with the new record appended, and return the new record. A second create
  on the files the first one left gives \<open>n + 1\<close>, so two creates in a row never give
  the same id.
\<close>

theorem create_assigns_next_id:
  assumes "map id_of xs = map Some ids"
      and "n = (if ids = [] then 1 else Max (set ids) + 1)"
  shows
  "(load_data fs PROJECTS_DB_FILE = Inr xs \<longrightarrow>
      create_project fs project
        = (Inr (JObj (AList.update ''id'' (JInt n) (Project_dict project))),
           save_data fs PROJECTS_DB_FILE
             (xs @ [JObj (AList.update ''id'' (JInt n) (Project_dict project))]))
      \<and> fst (create_project (snd (create_project fs project)) project')
        = Inr (JObj (AList.update ''id'' (JInt (n + 1)) (Project_dict project'))))
   \<and> (load_data fs USERS_DB_FILE = Inr xs \<longrightarrow>
      register_user fs user
        = (Inr (JObj (AList.update ''id'' (JInt n) (User_dict user))),
           save_data fs USERS_DB_FILE
             (xs @ [JObj (AList.update ''id'' (JInt n) (User_dict user))]))
      \<and> fst (register_user (snd (register_user fs user)) user')
        = Inr (JObj (AList.update ''id'' (JInt (n + 1)) (User_dict user'))))
   \<and> (load_data fs FORMS_DB_FILE = Inr xs
       \<and> any_match (\<lambda>existing_form.
             form_matches existing_form (f_user_id form) (f_project_id form)) xs = Inr False
       \<and> any_match (\<lambda>existing_form.
             form_matches existing_form (f_user_id form') (f_project_id form'))
             (xs @ [JObj (AList.update ''id'' (JInt n) (ParticipationForm_dict form))]) = Inr False
       \<longrightarrow>
      create_form fs form
        = (Inr (JObj (AList.update ''id'' (JInt n) (ParticipationForm_dict form))),
           save_data fs FORMS_DB_FILE
             (xs @ [JObj (AList.update ''id'' (JInt n) (ParticipationForm_dict form))]))
      \<and> fst (create_form (snd (create_form fs form)) form')
        = Inr (JObj (AList.update ''id'' (JInt (n + 1)) (ParticipationForm_dict form'))))
   \<and> getitem (JObj (AList.update ''id'' (JInt n) d)) ''id'' = Inr (JInt n)"
proof -
  note first = append_with_new_id_numbers [OF assms(1), folded assms(2)]
  note again = append_with_new_id_again [OF assms(1), folded assms(2)]
  have projects: "create_project fs project
        = (Inr (JObj (AList.update ''id'' (JInt n) (Project_dict project))),
           save_data fs PROJECTS_DB_FILE
             (xs @ [JObj (AList.update ''id'' (JInt n) (Project_dict project))]))
      \<and> fst (create_project (snd (create_project fs project)) project')
        = Inr (JObj (AList.update ''id'' (JInt (n + 1)) (Project_dict project')))"
    if "load_data fs PROJECTS_DB_FILE = Inr xs"
    using that by (simp add: create_project_def first again load_data_save_data)
  have users: "register_user fs user
        = (Inr (JObj (AList.update ''id'' (JInt n) (User_dict user))),
           save_data fs USERS_DB_FILE
             (xs @ [JObj (AList.update ''id'' (JInt n) (User_dict user))]))
      \<and> fst (register_user (snd (register_user fs user)) user')
        = Inr (JObj (AList.update ''id'' (JInt (n + 1)) (User_dict user')))"
    if "load_data fs USERS_DB_FILE = Inr xs"
    using that by (simp add: register_user_def first again load_data_save_data)
  have forms: "create_form fs form
        = (Inr (JObj (AList.update ''id'' (JInt n) (ParticipationForm_dict form))),
           save_data fs FORMS_DB_FILE
             (xs @ [JObj (AList.update ''id'' (JInt n) (ParticipationForm_dict form))]))
      \<and> fst (create_form (snd (create_form fs form)) form')
        = Inr (JObj (AList.update ''id'' (JInt (n + 1)) (ParticipationForm_dict form')))"
    if "load_data fs FORMS_DB_FILE = Inr xs"
      and "any_match (\<lambda>existing_form.
             form_matches existing_form (f_user_id form) (f_project_id form)) xs = Inr False"
      and "any_match (\<lambda>existing_form.
             form_matches existing_form (f_user_id form') (f_project_id form'))
             (xs @ [JObj (AList.update ''id'' (JInt n) (ParticipationForm_dict form))]) = Inr False"
    using that by (simp add: create_form_def first again load_data_save_data)
  show ?thesis
    using projects users forms getitem_update_same [of "''id''" "JInt n" d] by blast
qed

theorem create_assigns_next_id_witness:
  "create_project Map.empty
      \<lparr>p_id = None, p_name = ''X'', p_description = ''d'', p_podrazdelenie = ''eng'',
       p_date = ''2024-01-01'', p_skills = Some []\<rparr>
    = (Inr (JObj [(''id'', JInt 1), (''name'', JStr ''X''), (''description'', JStr ''d''),
                  (''podrazdelenie'', JStr ''eng''), (''date'', JStr ''2024-01-01''),
                  (''skills'', JList [])]),
       [''projects.json'' \<mapsto> Parsed (JList
          [JObj [(''id'', JInt 1), (''name'', JStr ''X''), (''description'', JStr ''d''),
                 (''podrazdelenie'', JStr ''eng''), (''date'', JStr ''2024-01-01''),
                 (''skills'', JList [])]])])
   \<and> fst (create_project
          (snd (create_project Map.empty
             \<lparr>p_id = None, p_name = ''X'', p_description = ''d'', p_podrazdelenie = ''eng'',
              p_date = ''2024-01-01'', p_skills = Some []\<rparr>))
          \<lparr>p_id = Some 1, p_name = ''Y'', p_description = ''e'', p_podrazdelenie = ''ops'',
           p_date = ''2024-01-02'', p_skills = None\<rparr>)
    = Inr (JObj [(''id'', JInt 2), (''name'', JStr ''Y''), (''description'', JStr ''e''),
                 (''podrazdelenie'', JStr ''ops''), (''date'', JStr ''2024-01-02''),
                 (''skills'', JNull)])
   \<and> register_user
        [''users.json'' \<mapsto> Parsed (JList [JObj [(''id'', JInt 1)], JObj [(''id'', JInt 3)]])]
        \<lparr>u_id = Some 1, u_first_name = ''Ada'', u_last_name = ''L'', u_password = ''pw''\<rparr>
    = (Inr (JObj [(''id'', JInt 4), (''first_name'', JStr ''Ada''), (''last_name'', JStr ''L''),
                  (''password'', JStr ''pw'')]),
       [''users.json'' \<mapsto> Parsed (JList [JObj [(''id'', JInt 1)], JObj [(''id'', JInt 3)],
          JObj [(''id'', JInt 4), (''first_name'', JStr ''Ada''), (''last_name'', JStr ''L''),
                (''password'', JStr ''pw'')]])])
   \<and> create_form
        [''forms.json'' \<mapsto> Parsed (JList
           [JObj [(''id'', JInt 2), (''user_id'', JInt 5), (''project_id'', JInt 2)]])]
        \<lparr>f_id = None, f_user_id = 5, f_project_id = 3, f_motivation = ''m'',
         f_experience = ''x'', f_availability = ''a''\<rparr>
    = (Inr (JObj [(''id'', JInt 3), (''user_id'', JInt 5), (''project_id'', JInt 3),
                  (''motivation'', JStr ''m''), (''experience'', JStr ''x''),
                  (''availability'', JStr ''a'')]),
       [''forms.json'' \<mapsto> Parsed (JList
           [JObj [(''id'', JInt 2), (''user_id'', JInt 5), (''project_id'', JInt 2)],
            JObj [(''id'', JInt 3), (''user_id'', JInt 5), (''project_id'', JInt 3),
                  (''motivation'', JStr ''m''), (''experience'', JStr ''x''),
                  (''availability'', JStr ''a'')]])])"
proof -
  note projects = create_assigns_next_id [where xs = "[]" and ids = "[]" and n = 1
      and fs = Map.empty
      and project = "\<lparr>p_id = None, p_name = ''X'', p_description = ''d'',
        p_podrazdelenie = ''eng'', p_date = ''2024-01-01'', p_skills = Some []\<rparr>"
      and project' = "\<lparr>p_id = Some 1, p_name = ''Y'', p_description = ''e'',
        p_podrazdelenie = ''ops'', p_date = ''2024-01-02'', p_skills = None\<rparr>",
      THEN conjunct1, THEN mp]
  note users = create_assigns_next_id
      [where xs = "[JObj [(''id'', JInt 1)], JObj [(''id'', JInt 3)]]"
      and ids = "[1, 3]" and n = 4
      and fs = "[''users.json'' \<mapsto> Parsed (JList [JObj [(''id'', JInt 1)], JObj [(''id'', JInt 3)]])]"
      and user = "\<lparr>u_id = Some 1, u_first_name = ''Ada'', u_last_name = ''L'', u_password = ''pw''\<rparr>",
      THEN conjunct2, THEN conjunct1, THEN mp, THEN conjunct1]
  note forms = create_assigns_next_id
      [where xs = "[JObj [(''id'', JInt 2), (''user_id'', JInt 5), (''project_id'', JInt 2)]]"
      and ids = "[2]" and n = 3
      and fs = "[''forms.json'' \<mapsto> Parsed (JList
           [JObj [(''id'', JInt 2), (''user_id'', JInt 5), (''project_id'', JInt 2)]])]"
      and form = "\<lparr>f_id = None, f_user_id = 5, f_project_id = 3, f_motivation = ''m'',
         f_experience = ''x'', f_availability = ''a''\<rparr>"
      and form' = "\<lparr>f_id = None, f_user_id = 6, f_project_id = 3, f_motivation = ''m'',
         f_experience = ''x'', f_availability = ''a''\<rparr>",
      THEN conjunct2, THEN conjunct2, THEN conjunct1, THEN mp, THEN conjunct1]
  show ?thesis
  proof (intro conjI)
    show "create_project Map.empty
      \<lparr>p_id = None, p_name = ''X'', p_description = ''d'', p_podrazdelenie = ''eng'',
       p_date = ''2024-01-01'', p_skills = Some []\<rparr>
    = (Inr (JObj [(''id'', JInt 1), (''name'', JStr ''X''), (''description'', JStr ''d''),
                  (''podrazdelenie'', JStr ''eng''), (''date'', JStr ''2024-01-01''),
                  (''skills'', JList [])]),
       [''projects.json'' \<mapsto> Parsed (JList
          [JObj [(''id'', JInt 1), (''name'', JStr ''X''), (''description'', JStr ''d''),
                 (''podrazdelenie'', JStr ''eng''), (''date'', JStr ''2024-01-01''),
                 (''skills'', JList [])]])])"
      using projects [THEN conjunct1]
      by (simp add: load_data_def save_data_def PROJECTS_DB_FILE_def Project_dict_def
          opt_int_def opt_ints_def)
    show "fst (create_project
          (snd (create_project Map.empty
             \<lparr>p_id = None, p_name = ''X'', p_description = ''d'', p_podrazdelenie = ''eng'',
              p_date = ''2024-01-01'', p_skills = Some []\<rparr>))
          \<lparr>p_id = Some 1, p_name = ''Y'', p_description = ''e'', p_podrazdelenie = ''ops'',
           p_date = ''2024-01-02'', p_skills = None\<rparr>)
    = Inr (JObj [(''id'', JInt 2), (''name'', JStr ''Y''), (''description'', JStr ''e''),
                 (''podrazdelenie'', JStr ''ops''), (''date'', JStr ''2024-01-02''),
                 (''skills'', JNull)])"
      using projects [THEN conjunct2]
      by (simp add: load_data_def PROJECTS_DB_FILE_def Project_dict_def opt_int_def opt_ints_def)
    show "register_user
        [''users.json'' \<mapsto> Parsed (JList [JObj [(''id'', JInt 1)], JObj [(''id'', JInt 3)]])]
        \<lparr>u_id = Some 1, u_first_name = ''Ada'', u_last_name = ''L'', u_password = ''pw''\<rparr>
    = (Inr (JObj [(''id'', JInt 4), (''first_name'', JStr ''Ada''), (''last_name'', JStr ''L''),
                  (''password'', JStr ''pw'')]),
       [''users.json'' \<mapsto> Parsed (JList [JObj [(''id'', JInt 1)], JObj [(''id'', JInt 3)],
          JObj [(''id'', JInt 4), (''first_name'', JStr ''Ada''), (''last_name'', JStr ''L''),
                (''password'', JStr ''pw'')]])])"
      using users
      by (simp add: id_of_def load_data_def save_data_def USERS_DB_FILE_def User_dict_def
          opt_int_def)
    show "create_form
        [''forms.json'' \<mapsto> Parsed (JList
           [JObj [(''id'', JInt 2), (''user_id'', JInt 5), (''project_id'', JInt 2)]])]
        \<lparr>f_id = None, f_user_id = 5, f_project_id = 3, f_motivation = ''m'',
         f_experience = ''x'', f_availability = ''a''\<rparr>
    = (Inr (JObj [(''id'', JInt 3), (''user_id'', JInt 5), (''project_id'', JInt 3),
                  (''motivation'', JStr ''m''), (''experience'', JStr ''x''),
                  (''availability'', JStr ''a'')]),
       [''forms.json'' \<mapsto> Parsed (JList
           [JObj [(''id'', JInt 2), (''user_id'', JInt 5), (''project_id'', JInt 2)],
            JObj [(''id'', JInt 3), (''user_id'', JInt 5), (''project_id'', JInt 3),
                  (''motivation'', JStr ''m''), (''experience'', JStr ''x''),
                  (''availability'', JStr ''a'')]])])"
      using forms
      by (simp add: id_of_def load_data_def save_data_def FORMS_DB_FILE_def
          ParticipationForm_dict_def opt_int_def form_matches_def eq_int_def)
  qed
qed

text \<open>
  C6. Form uniqueness: on a forms collection whose records carry integer ids, user ids
  \<open>uids\<close> and project ids \<open>pids\<close>, \<^verbatim>\<open>create_form\<close> with a (user, project) pair that
  some stored form has raises the HTTPException "Form already submitted for this
  project" and leaves the files as they were; with a pair that no stored form has it
  appends the new form under the next id and returns it.
\<close>

theorem create_form_unique_pair:
  assumes "load_data fs FORMS_DB_FILE = Inr forms"
      and "map id_of forms = map Some ids"
      and "map (\<lambda>x. getitem x ''user_id'') forms = map (\<lambda>u. Inr (JInt u)) uids"
      and "map (\<lambda>x. getitem x ''project_id'') forms = map (\<lambda>p. Inr (JInt p)) pids"
  shows "create_form fs form =
     (if (f_user_id form, f_project_id form) \<in> set (zip uids pids)
      then (Inl (HTTPException 400 ''Form already submitted for this project''), fs)
      else (Inr (JObj (AList.update ''id'' (JInt (if ids = [] then 1 else Max (set ids) + 1))
                         (ParticipationForm_dict form))),
            save_data fs FORMS_DB_FILE
              (forms @ [JObj (AList.update ''id'' (JInt (if ids = [] then 1 else Max (set ids) + 1))
                         (ParticipationForm_dict form))])))"
  using any_match_forms [OF assms(3,4), of "f_user_id form" "f_project_id form"]
    append_with_new_id_numbers [OF assms(2), of fs FORMS_DB_FILE "ParticipationForm_dict form"]
  by (simp add: create_form_def assms(1))

theorem create_form_unique_pair_witness:
  "create_form
      [''forms.json'' \<mapsto> Parsed (JList
         [JObj [(''id'', JInt 1), (''user_id'', JInt 5), (''project_id'', JInt 2)]])]
      \<lparr>f_id = None, f_user_id = 5, f_project_id = 2, f_motivation = ''m'',
       f_experience = ''x'', f_availability = ''a''\<rparr>
    = (Inl (HTTPException 400 ''Form already submitted for this project''),
       [''forms.json'' \<mapsto> Parsed (JList
         [JObj [(''id'', JInt 1), (''user_id'', JInt 5), (''project_id'', JInt 2)]])])
   \<and> create_form
      [''forms.json'' \<mapsto> Parsed (JList
         [JObj [(''id'', JInt 1), (''user_id'', JInt 5), (''project_id'', JInt 2)]])]
      \<lparr>f_id = None, f_user_id = 5, f_project_id = 3, f_motivation = ''m'',
       f_experience = ''x'', f_availability = ''a''\<rparr>
    = (Inr (JObj [(''id'', JInt 2), (''user_id'', JInt 5), (''project_id'', JInt 3),
                  (''motivation'', JStr ''m''), (''experience'', JStr ''x''),
                  (''availability'', JStr ''a'')]),
       [''forms.json'' \<mapsto> Parsed (JList
         [JObj [(''id'', JInt 1), (''user_id'', JInt 5), (''project_id'', JInt 2)],
          JObj [(''id'', JInt 2), (''user_id'', JInt 5), (''project_id'', JInt 3),
                (''motivation'', JStr ''m''), (''experience'', JStr ''x''),
                (''availability'', JStr ''a'')]])])"
  using create_form_unique_pair
      [where fs = "[''forms.json'' \<mapsto> Parsed (JList
         [JObj [(''id'', JInt 1), (''user_id'', JInt 5), (''project_id'', JInt 2)]])]"
       and forms = "[JObj [(''id'', JInt 1), (''user_id'', JInt 5), (''project_id'', JInt 2)]]"
       and ids = "[1]" and uids = "[5]" and pids = "[2]"
       and form = "\<lparr>f_id = None, f_user_id = 5, f_project_id = 2, f_motivation = ''m'',
         f_experience = ''x'', f_availability = ''a''\<rparr>"]
    create_form_unique_pair
      [where fs = "[''forms.json'' \<mapsto> Parsed (JList
         [JObj [(''id'', JInt 1), (''user_id'', JInt 5), (''project_id'', JInt 2)]])]"
       and forms = "[JObj [(''id'', JInt 1), (''user_id'', JInt 5), (''project_id'', JInt 2)]]"
       and ids = "[1]" and uids = "[5]" and pids = "[2]"
       and form = "\<lparr>f_id = None, f_user_id = 5, f_project_id = 3, f_motivation = ''m'',
         f_experience = ''x'', f_availability = ''a''\<rparr>"]
  by (simp add: id_of_def load_data_def save_data_def FORMS_DB_FILE_def
      ParticipationForm_dict_def opt_int_def)

text \<open>
  C7. Update keeps the identity fields: when \<^verbatim>\<open>update_project\<close> returns a record, that
  record is the first stored one whose id equals the path id, with the payload merged
  over it; its id is the stored one whatever id the payload holds, every other field
  of the model has the payload's value, and every other key is as stored. The same for
  \<^verbatim>\<open>update_task\<close>, which matches on id and project id and keeps both.
\<close>

theorem update_preserves_identity:
  "(update_project fs project_id updated_project = (Inr r, fs')
      \<and> load_data fs PROJECTS_DB_FILE = Inr xs \<longrightarrow>
     (\<exists>pre old post. xs = pre @ JObj old # post
        \<and> (\<forall>x\<in>set pre. id_matches x project_id = Inr False)
        \<and> id_matches (JObj old) project_id = Inr True
        \<and> r = JObj (dict_update old (exclude [''id''] (Project_dict updated_project)))
        \<and> fs' = save_data fs PROJECTS_DB_FILE (pre @ r # post)
        \<and> getitem r ''id'' = getitem (JObj old) ''id''
        \<and> (\<forall>k. getitem r k =
              (if k \<in> {''name'', ''description'', ''podrazdelenie'', ''date'', ''skills''}
               then getitem (JObj (Project_dict updated_project)) k
               else getitem (JObj old) k))))
   \<and> (update_task fs project_id task_id updated_task = (Inr r, fs')
      \<and> load_data fs TASKS_DB_FILE = Inr xs \<longrightarrow>
     (\<exists>pre old post. xs = pre @ JObj old # post
        \<and> (\<forall>x\<in>set pre. task_matches x task_id project_id = Inr False)
        \<and> task_matches (JObj old) task_id project_id = Inr True
        \<and> r = JObj (dict_update old (exclude [''id'', ''project_id''] (Task_dict updated_task)))
        \<and> fs' = save_data fs TASKS_DB_FILE (pre @ r # post)
        \<and> getitem r ''id'' = getitem (JObj old) ''id''
        \<and> getitem r ''project_id'' = getitem (JObj old) ''project_id''
        \<and> (\<forall>k. getitem r k =
              (if k \<in> {''name'', ''description'', ''date'', ''status''}
               then getitem (JObj (Task_dict updated_task)) k
               else getitem (JObj old) k))))"
  using update_project_result update_task_result by blast

theorem update_preserves_identity_witness:
  "update_project
      [''projects.json'' \<mapsto> Parsed (JList
         [JObj [(''id'', JInt 1), (''name'', JStr ''old''), (''description'', JStr ''d''),
                (''podrazdelenie'', JStr ''eng''), (''date'', JStr ''2024-01-01''),
                (''skills'', JList [])]])]
      1
      \<lparr>p_id = Some 99, p_name = ''new'', p_description = ''e'', p_podrazdelenie = ''ops'',
       p_date = ''2024-02-02'', p_skills = Some [4]\<rparr>
    = (Inr (JObj [(''id'', JInt 1), (''name'', JStr ''new''), (''description'', JStr ''e''),
                  (''podrazdelenie'', JStr ''ops''), (''date'', JStr ''2024-02-02''),
                  (''skills'', JList [JInt 4])]),
       [''projects.json'' \<mapsto> Parsed (JList
         [JObj [(''id'', JInt 1), (''name'', JStr ''new''), (''description'', JStr ''e''),
                (''podrazdelenie'', JStr ''ops''), (''date'', JStr ''2024-02-02''),
                (''skills'', JList [JInt 4])]])])
   \<and> (\<exists>pre old post.
         [JObj [(''id'', JInt 1), (''name'', JStr ''old''), (''description'', JStr ''d''),
                (''podrazdelenie'', JStr ''eng''), (''date'', JStr ''2024-01-01''),
                (''skills'', JList [])]] = pre @ JObj old # post
         \<and> getitem (JObj [(''id'', JInt 1), (''name'', JStr ''new''),
                (''description'', JStr ''e''), (''podrazdelenie'', JStr ''ops''),
                (''date'', JStr ''2024-02-02''), (''skills'', JList [JInt 4])]) ''id''
             = getitem (JObj old) ''id'')
   \<and> update_task
      [''tasks.json'' \<mapsto> Parsed (JList
         [JObj [(''id'', JInt 3), (''project_id'', JInt 1), (''name'', JStr ''old''),
                (''description'', JStr ''d''), (''date'', JStr ''2024-01-01''),
                (''status'', JStr ''open'')]])]
      1 3
      \<lparr>t_id = Some 99, t_project_id = 42, t_name = ''new'', t_description = ''e'',
       t_date = ''2024-02-02'', t_status = ''done''\<rparr>
    = (Inr (JObj [(''id'', JInt 3), (''project_id'', JInt 1), (''name'', JStr ''new''),
                  (''description'', JStr ''e''), (''date'', JStr ''2024-02-02''),
                  (''status'', JStr ''done'')]),
       [''tasks.json'' \<mapsto> Parsed (JList
         [JObj [(''id'', JInt 3), (''project_id'', JInt 1), (''name'', JStr ''new''),
                (''description'', JStr ''e''), (''date'', JStr ''2024-02-02''),
                (''status'', JStr ''done'')]])])
   \<and> (\<exists>pre old post.
         [JObj [(''id'', JInt 3), (''project_id'', JInt 1), (''name'', JStr ''old''),
                (''description'', JStr ''d''), (''date'', JStr ''2024-01-01''),
                (''status'', JStr ''open'')]] = pre @ JObj old # post
         \<and> getitem (JObj [(''id'', JInt 3), (''project_id'', JInt 1), (''name'', JStr ''new''),
                (''description'', JStr ''e''), (''date'', JStr ''2024-02-02''),
                (''status'', JStr ''done'')]) ''id'' = getitem (JObj old) ''id''
         \<and> getitem (JObj [(''id'', JInt 3), (''project_id'', JInt 1), (''name'', JStr ''new''),
                (''description'', JStr ''e''), (''date'', JStr ''2024-02-02''),
                (''status'', JStr ''done'')]) ''project_id'' = getitem (JObj old) ''project_id'')"
proof -
  have p: "update_project
      [''projects.json'' \<mapsto> Parsed (JList
         [JObj [(''id'', JInt 1), (''name'', JStr ''old''), (''description'', JStr ''d''),
                (''podrazdelenie'', JStr ''eng''), (''date'', JStr ''2024-01-01''),
                (''skills'', JList [])]])]
      1
      \<lparr>p_id = Some 99, p_name = ''new'', p_description = ''e'', p_podrazdelenie = ''ops'',
       p_date = ''2024-02-02'', p_skills = Some [4]\<rparr>
    = (Inr (JObj [(''id'', JInt 1), (''name'', JStr ''new''), (''description'', JStr ''e''),
                  (''podrazdelenie'', JStr ''ops''), (''date'', JStr ''2024-02-02''),
                  (''skills'', JList [JInt 4])]),
       [''projects.json'' \<mapsto> Parsed (JList
         [JObj [(''id'', JInt 1), (''name'', JStr ''new''), (''description'', JStr ''e''),
                (''podrazdelenie'', JStr ''ops''), (''date'', JStr ''2024-02-02''),
                (''skills'', JList [JInt 4])]])])"
    by (simp add: update_project_def load_data_def save_data_def PROJECTS_DB_FILE_def
        id_matches_def eq_int_def dict_update_def exclude_def Project_dict_def opt_int_def
        opt_ints_def)
  have lp: "load_data
      [''projects.json'' \<mapsto> Parsed (JList
         [JObj [(''id'', JInt 1), (''name'', JStr ''old''), (''description'', JStr ''d''),
                (''podrazdelenie'', JStr ''eng''), (''date'', JStr ''2024-01-01''),
                (''skills'', JList [])]])] PROJECTS_DB_FILE
     = Inr [JObj [(''id'', JInt 1), (''name'', JStr ''old''), (''description'', JStr ''d''),
                (''podrazdelenie'', JStr ''eng''), (''date'', JStr ''2024-01-01''),
                (''skills'', JList [])]]"
    by (simp add: load_data_def PROJECTS_DB_FILE_def)
  have t: "update_task
      [''tasks.json'' \<mapsto> Parsed (JList
         [JObj [(''id'', JInt 3), (''project_id'', JInt 1), (''name'', JStr ''old''),
                (''description'', JStr ''d''), (''date'', JStr ''2024-01-01''),
                (''status'', JStr ''open'')]])]
      1 3
      \<lparr>t_id = Some 99, t_project_id = 42, t_name = ''new'', t_description = ''e'',
       t_date = ''2024-02-02'', t_status = ''done''\<rparr>
    = (Inr (JObj [(''id'', JInt 3), (''project_id'', JInt 1), (''name'', JStr ''new''),
                  (''description'', JStr ''e''), (''date'', JStr ''2024-02-02''),
                  (''status'', JStr ''done'')]),
       [''tasks.json'' \<mapsto> Parsed (JList
         [JObj [(''id'', JInt 3), (''project_id'', JInt 1), (''name'', JStr ''new''),
                (''description'', JStr ''e''), (''date'', JStr ''2024-02-02''),
                (''status'', JStr ''done'')]])])"
    by (simp add: update_task_def load_data_def save_data_def TASKS_DB_FILE_def
        task_matches_def eq_int_def dict_update_def exclude_def Task_dict_def opt_int_def)
  have lt: "load_data
      [''tasks.json'' \<mapsto> Parsed (JList
         [JObj [(''id'', JInt 3), (''project_id'', JInt 1), (''name'', JStr ''old''),
                (''description'', JStr ''d''), (''date'', JStr ''2024-01-01''),
                (''status'', JStr ''open'')]])] TASKS_DB_FILE
     = Inr [JObj [(''id'', JInt 3), (''project_id'', JInt 1), (''name'', JStr ''old''),
                (''description'', JStr ''d''), (''date'', JStr ''2024-01-01''),
                (''status'', JStr ''open'')]]"
    by (simp add: load_data_def TASKS_DB_FILE_def)
  from update_preserves_identity [THEN conjunct1, THEN mp, OF conjI, OF p lp]
  have projects: "\<exists>pre old post.
         [JObj [(''id'', JInt 1), (''name'', JStr ''old''), (''description'', JStr ''d''),
                (''podrazdelenie'', JStr ''eng''), (''date'', JStr ''2024-01-01''),
                (''skills'', JList [])]] = pre @ JObj old # post
         \<and> getitem (JObj [(''id'', JInt 1), (''name'', JStr ''new''),
                (''description'', JStr ''e''), (''podrazdelenie'', JStr ''ops''),
                (''date'', JStr ''2024-02-02''), (''skills'', JList [JInt 4])]) ''id''
             = getitem (JObj old) ''id''"
    by blast
  from update_preserves_identity [THEN conjunct2, THEN mp, OF conjI, OF t lt]
  have tasks: "\<exists>pre old post.
         [JObj [(''id'', JInt 3), (''project_id'', JInt 1), (''name'', JStr ''old''),
                (''description'', JStr ''d''), (''date'', JStr ''2024-01-01''),
                (''status'', JStr ''open'')]] = pre @ JObj old # post
         \<and> getitem (JObj [(''id'', JInt 3), (''project_id'', JInt 1), (''name'', JStr ''new''),
                (''description'', JStr ''e''), (''date'', JStr ''2024-02-02''),
                (''status'', JStr ''done'')]) ''id'' = getitem (JObj old) ''id''
         \<and> getitem (JObj [(''id'', JInt 3), (''project_id'', JInt 1), (''name'', JStr ''new''),
                (''description'', JStr ''e''), (''date'', JStr ''2024-02-02''),
                (''status'', JStr ''done'')]) ''project_id'' = getitem (JObj old) ''project_id''"
    by blast
  from p projects t tasks show ?thesis
    by (intro conjI)
qed

text \<open>
  C8. Delete: on a collection whose records all have an id (and for tasks a project
  id), the delete handlers behave alike. When some record matches, the handler saves
  the collection without the matching records, the others kept in order, and returns
  the detail; when none matches, it raises the 404 and leaves the files as they were.
\<close>

theorem delete_removes_matches_or_not_found:
  "(load_data fs PROJECTS_DB_FILE = Inr xs \<and> (\<forall>x\<in>set xs. \<exists>v. getitem x ''id'' = Inr v) \<longrightarrow>
      delete_project fs n =
        (if \<exists>x\<in>set xs. id_matches x n = Inr True
         then (Inr (JObj [(''detail'', JStr ''Project deleted'')]),
               save_data fs PROJECTS_DB_FILE (filter (\<lambda>x. id_matches x n \<noteq> Inr True) xs))
         else (Inl (HTTPException 404 ''Project not found''), fs)))
   \<and> (load_data fs TASKS_DB_FILE = Inr xs
       \<and> (\<forall>x\<in>set xs. (\<exists>v. getitem x ''id'' = Inr v) \<and> (\<exists>w. getitem x ''project_id'' = Inr w)) \<longrightarrow>
      delete_task fs project_id n =
        (if \<exists>x\<in>set xs. task_matches x n project_id = Inr True
         then (Inr (JObj [(''detail'', JStr ''Task deleted'')]),
               save_data fs TASKS_DB_FILE
                 (filter (\<lambda>x. task_matches x n project_id \<noteq> Inr True) xs))
         else (Inl (HTTPException 404 ''Task not found''), fs)))
   \<and> (load_data fs FORMS_DB_FILE = Inr xs \<and> (\<forall>x\<in>set xs. \<exists>v. getitem x ''id'' = Inr v) \<longrightarrow>
      delete_form fs n =
        (if \<exists>x\<in>set xs. id_matches x n = Inr True
         then (Inr (JObj [(''detail'', JStr ''Form deleted'')]),
               save_data fs FORMS_DB_FILE (filter (\<lambda>x. id_matches x n \<noteq> Inr True) xs))
         else (Inl (HTTPException 404 ''Form not found''), fs)))"
proof -
  have ids: "\<forall>x\<in>set xs. \<exists>b. id_matches x n = Inr b"
    if "\<forall>x\<in>set xs. \<exists>v. getitem x ''id'' = Inr v"
    using that id_matches_total by blast
  have both: "\<forall>x\<in>set xs. \<exists>b. task_matches x n project_id = Inr b"
    if "\<forall>x\<in>set xs. (\<exists>v. getitem x ''id'' = Inr v) \<and> (\<exists>w. getitem x ''project_id'' = Inr w)"
    using that task_matches_total by blast
  have projects: "delete_project fs n =
        (if \<exists>x\<in>set xs. id_matches x n = Inr True
         then (Inr (JObj [(''detail'', JStr ''Project deleted'')]),
               save_data fs PROJECTS_DB_FILE (filter (\<lambda>x. id_matches x n \<noteq> Inr True) xs))
         else (Inl (HTTPException 404 ''Project not found''), fs))"
    if "load_data fs PROJECTS_DB_FILE = Inr xs" "\<forall>x\<in>set xs. \<exists>v. getitem x ''id'' = Inr v"
    unfolding delete_project_def that(1) sum.case by (rule delete_pattern [OF ids [OF that(2)]])
  have tasks: "delete_task fs project_id n =
        (if \<exists>x\<in>set xs. task_matches x n project_id = Inr True
         then (Inr (JObj [(''detail'', JStr ''Task deleted'')]),
               save_data fs TASKS_DB_FILE
                 (filter (\<lambda>x. task_matches x n project_id \<noteq> Inr True) xs))
         else (Inl (HTTPException 404 ''Task not found''), fs))"
    if "load_data fs TASKS_DB_FILE = Inr xs"
      "\<forall>x\<in>set xs. (\<exists>v. getitem x ''id'' = Inr v) \<and> (\<exists>w. getitem x ''project_id'' = Inr w)"
    unfolding delete_task_def that(1) sum.case by (rule delete_pattern [OF both [OF that(2)]])
  have forms: "delete_form fs n =
        (if \<exists>x\<in>set xs. id_matches x n = Inr True
         then (Inr (JObj [(''detail'', JStr ''Form deleted'')]),
               save_data fs FORMS_DB_FILE (filter (\<lambda>x. id_matches x n \<noteq> Inr True) xs))
         else (Inl (HTTPException 404 ''Form not found''), fs))"
    if "load_data fs FORMS_DB_FILE = Inr xs" "\<forall>x\<in>set xs. \<exists>v. getitem x ''id'' = Inr v"
    unfolding delete_form_def that(1) sum.case by (rule delete_pattern [OF ids [OF that(2)]])
  show ?thesis
    using projects tasks forms by blast
qed

theorem delete_removes_matches_or_not_found_witness:
  "delete_project
      [''projects.json'' \<mapsto> Parsed (JList [JObj [(''id'', JInt 1)], JObj [(''id'', JInt 2)]])] 1
    = (Inr (JObj [(''detail'', JStr ''Project deleted'')]),
       [''projects.json'' \<mapsto> Parsed (JList [JObj [(''id'', JInt 2)]])])
   \<and> delete_project
      [''projects.json'' \<mapsto> Parsed (JList [JObj [(''id'', JInt 1)], JObj [(''id'', JInt 2)]])] 7
    = (Inl (HTTPException 404 ''Project not found''),
       [''projects.json'' \<mapsto> Parsed (JList [JObj [(''id'', JInt 1)], JObj [(''id'', JInt 2)]])])
   \<and> delete_task
      [''tasks.json'' \<mapsto> Parsed (JList
         [JObj [(''id'', JInt 1), (''project_id'', JInt 2)],
          JObj [(''id'', JInt 1), (''project_id'', JInt 3)]])] 2 1
    = (Inr (JObj [(''detail'', JStr ''Task deleted'')]),
       [''tasks.json'' \<mapsto> Parsed (JList [JObj [(''id'', JInt 1), (''project_id'', JInt 3)]])])
   \<and> delete_task
      [''tasks.json'' \<mapsto> Parsed (JList
         [JObj [(''id'', JInt 1), (''project_id'', JInt 2)],
          JObj [(''id'', JInt 1), (''project_id'', JInt 3)]])] 4 1
    = (Inl (HTTPException 404 ''Task not found''),
       [''tasks.json'' \<mapsto> Parsed (JList
         [JObj [(''id'', JInt 1), (''project_id'', JInt 2)],
          JObj [(''id'', JInt 1), (''project_id'', JInt 3)]])])
   \<and> delete_form
      [''forms.json'' \<mapsto> Parsed (JList [JObj [(''id'', JInt 1)], JObj [(''id'', JInt 2)]])] 2
    = (Inr (JObj [(''detail'', JStr ''Form deleted'')]),
       [''forms.json'' \<mapsto> Parsed (JList [JObj [(''id'', JInt 1)]])])
   \<and> delete_form
      [''forms.json'' \<mapsto> Parsed (JList [JObj [(''id'', JInt 1)], JObj [(''id'', JInt 2)]])] 3
    = (Inl (HTTPException 404 ''Form not found''),
       [''forms.json'' \<mapsto> Parsed (JList [JObj [(''id'', JInt 1)], JObj [(''id'', JInt 2)]])])"
  using
    delete_removes_matches_or_not_found
      [where xs = "[JObj [(''id'', JInt 1)], JObj [(''id'', JInt 2)]]" and n = 1 and fs = "[''projects.json'' \<mapsto> Parsed (JList [JObj [(''id'', JInt 1)], JObj [(''id'', JInt 2)]])]", THEN conjunct1]
    delete_removes_matches_or_not_found
      [where xs = "[JObj [(''id'', JInt 1)], JObj [(''id'', JInt 2)]]" and n = 7 and fs = "[''projects.json'' \<mapsto> Parsed (JList [JObj [(''id'', JInt 1)], JObj [(''id'', JInt 2)]])]", THEN conjunct1]
    delete_removes_matches_or_not_found
      [where xs = "[JObj [(''id'', JInt 1), (''project_id'', JInt 2)],
                    JObj [(''id'', JInt 1), (''project_id'', JInt 3)]]" and n = 1 and project_id = 2
       and fs = "[''tasks.json'' \<mapsto> Parsed (JList
         [JObj [(''id'', JInt 1), (''project_id'', JInt 2)],
          JObj [(''id'', JInt 1), (''project_id'', JInt 3)]])]", THEN conjunct2, THEN conjunct1]
    delete_removes_matches_or_not_found
      [where xs = "[JObj [(''id'', JInt 1), (''project_id'', JInt 2)],
                    JObj [(''id'', JInt 1), (''project_id'', JInt 3)]]" and n = 1 and project_id = 4
       and fs = "[''tasks.json'' \<mapsto> Parsed (JList
         [JObj [(''id'', JInt 1), (''project_id'', JInt 2)],
          JObj [(''id'', JInt 1), (''project_id'', JInt 3)]])]", THEN conjunct2, THEN conjunct1]
    delete_removes_matches_or_not_found
      [where xs = "[JObj [(''id'', JInt 1)], JObj [(''id'', JInt 2)]]" and n = 2 and fs = "[''forms.json'' \<mapsto> Parsed (JList [JObj [(''id'', JInt 1)], JObj [(''id'', JInt 2)]])]", THEN conjunct2, THEN conjunct2]
    delete_removes_matches_or_not_found
      [where xs = "[JObj [(''id'', JInt 1)], JObj [(''id'', JInt 2)]]" and n = 3 and fs = "[''forms.json'' \<mapsto> Parsed (JList [JObj [(''id'', JInt 1)], JObj [(''id'', JInt 2)]])]", THEN conjunct2, THEN conjunct2]
  by (simp add: load_data_def save_data_def PROJECTS_DB_FILE_def TASKS_DB_FILE_def
      FORMS_DB_FILE_def id_matches_def task_matches_def eq_int_def)

text \<open>
  C10. Ids stay distinct: from a projects collection that loads as empty, after any
  sequence of create, update and delete requests the collection loads, every record has
  an integer id, and no two records have the same id.
\<close>

theorem ids_stay_distinct:
  assumes "load_data fs PROJECTS_DB_FILE = Inr []"
  shows "\<exists>xs ids. load_data (run_project_ops fs ops) PROJECTS_DB_FILE = Inr xs
           \<and> map (\<lambda>x. getitem x ''id'') xs = map (\<lambda>i. Inr (JInt i)) ids \<and> distinct ids"
proof -
  have "distinct_int_ids fs"
    unfolding distinct_int_ids_def int_ids_def using assms by (intro exI [of _ "[]"]) simp
  from run_project_ops_keeps [OF this, of ops] show ?thesis
    unfolding distinct_int_ids_def int_ids_def .
qed

theorem ids_stay_distinct_witness:
  "load_data Map.empty PROJECTS_DB_FILE = Inr []
   \<and> (\<exists>xs ids. load_data
          (run_project_ops Map.empty
             [Create \<lparr>p_id = None, p_name = ''X'', p_description = ''d'',
                      p_podrazdelenie = ''eng'', p_date = ''2024-01-01'', p_skills = Some []\<rparr>,
              Create \<lparr>p_id = Some 1, p_name = ''Y'', p_description = ''d'',
                      p_podrazdelenie = ''eng'', p_date = ''2024-01-01'', p_skills = Some []\<rparr>,
              Delete 1,
              Update 2 \<lparr>p_id = Some 1, p_name = ''Z'', p_description = ''d'',
                        p_podrazdelenie = ''eng'', p_date = ''2024-01-01'', p_skills = None\<rparr>,
              Create \<lparr>p_id = Some 2, p_name = ''W'', p_description = ''d'',
                      p_podrazdelenie = ''eng'', p_date = ''2024-01-01'', p_skills = Some []\<rparr>])
          PROJECTS_DB_FILE = Inr xs
        \<and> map (\<lambda>x. getitem x ''id'') xs = map (\<lambda>i. Inr (JInt i)) ids \<and> distinct ids)
   \<and> map (\<lambda>x. getitem x ''id'')
        (case load_data
          (run_project_ops Map.empty
             [Create \<lparr>p_id = None, p_name = ''X'', p_description = ''d'',
                      p_podrazdelenie = ''eng'', p_date = ''2024-01-01'', p_skills = Some []\<rparr>,
              Create \<lparr>p_id = Some 1, p_name = ''Y'', p_description = ''d'',
                      p_podrazdelenie = ''eng'', p_date = ''2024-01-01'', p_skills = Some []\<rparr>,
              Delete 1,
              Update 2 \<lparr>p_id = Some 1, p_name = ''Z'', p_description = ''d'',
                        p_podrazdelenie = ''eng'', p_date = ''2024-01-01'', p_skills = None\<rparr>,
              Create \<lparr>p_id = Some 2, p_name = ''W'', p_description = ''d'',
                      p_podrazdelenie = ''eng'', p_date = ''2024-01-01'', p_skills = Some []\<rparr>])
          PROJECTS_DB_FILE of Inl e \<Rightarrow> [] | Inr xs \<Rightarrow> xs)
      = [Inr (JInt 2), Inr (JInt 3)]"
proof -
  have empty: "load_data Map.empty PROJECTS_DB_FILE = Inr []"
    by (simp add: load_data_def)
  have run: "map (\<lambda>x. getitem x ''id'')
        (case load_data
          (run_project_ops Map.empty
             [Create \<lparr>p_id = None, p_name = ''X'', p_description = ''d'',
                      p_podrazdelenie = ''eng'', p_date = ''2024-01-01'', p_skills = Some []\<rparr>,
              Create \<lparr>p_id = Some 1, p_name = ''Y'', p_description = ''d'',
                      p_podrazdelenie = ''eng'', p_date = ''2024-01-01'', p_skills = Some []\<rparr>,
              Delete 1,
              Update 2 \<lparr>p_id = Some 1, p_name = ''Z'', p_description = ''d'',
                        p_podrazdelenie = ''eng'', p_date = ''2024-01-01'', p_skills = None\<rparr>,
              Create \<lparr>p_id = Some 2, p_name = ''W'', p_description = ''d'',
                      p_podrazdelenie = ''eng'', p_date = ''2024-01-01'', p_skills = Some []\<rparr>])
          PROJECTS_DB_FILE of Inl e \<Rightarrow> [] | Inr xs \<Rightarrow> xs)
      = [Inr (JInt 2), Inr (JInt 3)]"
    by (simp add: run_project_ops_def create_project_def update_project_def delete_project_def
        append_with_new_id_def next_id_def load_data_def save_data_def PROJECTS_DB_FILE_def
        id_matches_def eq_int_def dict_update_def exclude_def Project_dict_def opt_int_def
        opt_ints_def Let_def)
  from ids_stay_distinct [OF empty] empty run show ?thesis
    by blast
qed

end
